theory Spec2Isabelle
  imports Main
begin

section \<open>Values, errors and observable events\<close>

text \<open>
  What a \<open>throw\<close> carries. \<open>e instanceof ValidationError\<close> holds for the first
  constructor only.
\<close>

datatype exn =
    ValidationError string
  | Error string
  | TypeError string

text \<open>
  What an assignment \<open>receiver[name] = v\<close> finds for \<open>name\<close> on the prototype chain of the
  receiver, when the receiver has no own property of that name: nothing or a writable data
  property (the assignment then creates an own property of the receiver), a read-only data
  property or an accessor without a setter (a \<open>TypeError\<close>, class bodies being strict
  code), an accessor with a setter (the setter is called, with what it throws if it
  throws, and no own property is created), or the \<open>__proto__\<close> accessor of
  \<open>Object.prototype\<close>.
\<close>

datatype property_kind =
    Plain
  | ReadOnly
  | Setter "exn option"
  | ProtoSetter

text \<open>
  JavaScript values that travel through the option pipeline. \<open>null\<close> and
  \<open>undefined\<close> are kept apart: the loop of \<open>validateAndTransformOptions\<close> tests
  \<open>value === null\<close>, while the \<open>??\<close> of the USER case of \<open>getDataForType\<close> accepts both.
  Users, channels, roles and attachments are objects, named by an identifier. An object
  carries the names that an assignment through it does not treat as plain; it is an
  ordinary object, so \<open>__proto__\<close> resolves to the accessor of \<open>Object.prototype\<close> unless
  the object says otherwise.
\<close>

datatype jsval =
    JNull
  | JUndefined
  | JStr string
  | JNum int
  | JBool bool
  | JObj string "(string \<times> property_kind) list"

definition findProperty :: "jsval \<Rightarrow> string \<Rightarrow> property_kind" where
  "findProperty holder key =
     (case holder of
        JObj ident special \<Rightarrow>
          (case map_of special key of
             Some kind \<Rightarrow> kind
           | None \<Rightarrow> if key = ''__proto__'' then ProtoSetter else Plain)
      | _ \<Rightarrow> Plain)"

definition objectPrototype :: jsval where
  "objectPrototype = JObj ''Object.prototype'' []"

text \<open>
  Calls that leave the library, and calls of user-supplied functions, in the order in which
  they happen. \<open>ValidatorCalled\<close>, \<open>TransformerCalled\<close> and \<open>RunCalled\<close> record that
  the function registered under that name was invoked (with which value);
  \<open>InteractionReply\<close> is \<open>interaction.reply({content, ephemeral})\<close>,
  \<open>InteractionRespond\<close> is \<open>interaction.respond(choices)\<close> with (name, value) pairs,
  \<open>ReplyToInteraction\<close> is \<open>connector.replyToInteraction(interaction, {content, flags})\<close>.
\<close>

datatype event =
    ValidatorCalled string jsval
  | TransformerCalled string jsval
  | RunCalled string
  | InteractionReply string bool
  | InteractionRespond "(string \<times> string) list"
  | ReplyToInteraction string int

section \<open>Interactions and option descriptors\<close>

datatype interaction_class = CommandInteraction | AutocompleteInteraction

text \<open>
  The typed getters of \<open>interaction.options\<close> belong to the chat-platform library. They are
  a parameter of the model: a getter receives the option name and the \<open>required\<close> flag and
  either throws or returns a value (\<open>null\<close> when nothing was supplied).
\<close>

datatype getter =
    GetString | GetInteger | GetBoolean | GetMember | GetUser
  | GetChannel | GetRole | GetMentionable | GetNumber | GetAttachment

record interaction =
  interactionClass :: interaction_class
  optionsGet :: "getter \<Rightarrow> string \<Rightarrow> bool \<Rightarrow> exn + jsval"

datatype option_kind =
    STRING | INTEGER | BOOLEAN | USER | CHANNEL | ROLE | MENTIONABLE | NUMBER | ATTACHMENT

text \<open>
  The \<open>type\<close> of an option is written either as the string literal or as the member of
  \<open>ApplicationCommandOptionType\<close>; every \<open>switch\<close> of the source has both labels on one
  branch.
\<close>

datatype option_type = Literal option_kind | Enum option_kind

fun kindOf :: "option_type \<Rightarrow> option_kind" where
  "kindOf (Literal k) = k"
| "kindOf (Enum k) = k"

text \<open>A validator returns a boolean or a string, or throws.\<close>

datatype validate_result = VBool bool | VStr string

type_synonym validator_fn = "interaction \<Rightarrow> jsval \<Rightarrow> exn + validate_result"
type_synonym transformer_fn = "jsval \<Rightarrow> exn + jsval"

record option_data =
  optName :: string
  optType :: option_type
  optRequired :: "bool option"
  validator :: "validator_fn option"
  transformer :: "transformer_fn option"

section \<open>Chat commands (SlashCommandBase.ts)\<close>

text \<open>
  Handlers return nothing; what they do is the list of events they cause and, possibly, the
  error they throw. The \<open>client\<close> argument of the source is left out of the handler types:
  the client holds the commands, so a handler type that mentions it would be circular.
\<close>

type_synonym options_object = "string \<rightharpoonup> jsval"
type_synonym run_fn = "interaction \<Rightarrow> options_object \<Rightarrow> event list \<times> exn option"
type_synonym autocomplete_fn =
  "interaction \<Rightarrow> string \<Rightarrow> jsval \<Rightarrow> options_object \<Rightarrow> event list \<times> exn option"

record chat_command_options =
  name :: string
  description :: string
  options :: "option_data list"

text \<open>
  The object passed as \<open>handlers\<close>. The type \<open>HandlersType\<close> demands \<open>run\<close>; the
  constructor reads the property whether it is there or not, so the model keeps it optional
  (\<open>None\<close> is \<open>undefined\<close>).
\<close>

record handlers =
  handlersRun :: "run_fn option"
  handlersAutocomplete :: "autocomplete_fn option"

record slash_command =
  commandInfo :: chat_command_options
  validatorsMap :: "string \<rightharpoonup> validator_fn"
  transformersMap :: "string \<rightharpoonup> transformer_fn"
  run :: "run_fn option"
  autocomplete :: autocomplete_fn

text \<open>The methods \<open>run\<close> and \<open>autocomplete\<close> of the class body.\<close>

definition defaultRun :: run_fn where
  "defaultRun interaction opts =
     ([InteractionReply ''This command is not implemented yet'' True], None)"

definition defaultAutocomplete :: autocomplete_fn where
  "defaultAutocomplete interaction focusedName focusedValue opts =
     ([InteractionRespond [(''This interaction isn't implemented yet'', ''error'')]], None)"

text \<open>
  The constructor. The \<open>forEach\<close> over the options fills the two maps in declaration order;
  \<open>this.run = handlers.run\<close> is unconditional, \<open>this.autocomplete\<close> is assigned only
  when \<open>'autocomplete' in handlers\<close>.
\<close>

definition registerOption ::
  "option_data \<Rightarrow> (string \<rightharpoonup> validator_fn) \<times> (string \<rightharpoonup> transformer_fn)
     \<Rightarrow> (string \<rightharpoonup> validator_fn) \<times> (string \<rightharpoonup> transformer_fn)" where
  "registerOption opt maps =
     (let vm = (case validator opt of
                  Some f \<Rightarrow> (fst maps)(optName opt \<mapsto> f)
                | None \<Rightarrow> fst maps);
          tm = (case transformer opt of
                  Some g \<Rightarrow> (snd maps)(optName opt \<mapsto> g)
                | None \<Rightarrow> snd maps)
      in (vm, tm))"

definition SlashCommand :: "chat_command_options \<Rightarrow> handlers \<Rightarrow> slash_command" where
  "SlashCommand info hs =
     (let maps = fold registerOption (options info) (Map.empty, Map.empty)
      in \<lparr> commandInfo = info,
           validatorsMap = fst maps,
           transformersMap = snd maps,
           run = handlersRun hs,
           autocomplete = (case handlersAutocomplete hs of
                             Some a \<Rightarrow> a
                           | None \<Rightarrow> defaultAutocomplete) \<rparr>)"

subsection \<open>getDataForType\<close>

definition getDataForType ::
  "interaction \<Rightarrow> option_type \<Rightarrow> string \<Rightarrow> bool \<Rightarrow> exn + jsval" where
  "getDataForType interaction ty nm required =
     (case kindOf ty of
        STRING \<Rightarrow> optionsGet interaction GetString nm required
      | INTEGER \<Rightarrow> optionsGet interaction GetInteger nm required
      | BOOLEAN \<Rightarrow> optionsGet interaction GetBoolean nm required
      | USER \<Rightarrow>
          (case optionsGet interaction GetMember nm required of
             Inl e \<Rightarrow> Inl e
           | Inr m \<Rightarrow>
               if m = JNull \<or> m = JUndefined
               then optionsGet interaction GetUser nm required
               else Inr m)
      | CHANNEL \<Rightarrow> optionsGet interaction GetChannel nm required
      | ROLE \<Rightarrow> optionsGet interaction GetRole nm required
      | MENTIONABLE \<Rightarrow> optionsGet interaction GetMentionable nm required
      | NUMBER \<Rightarrow> optionsGet interaction GetNumber nm required
      | ATTACHMENT \<Rightarrow> optionsGet interaction GetAttachment nm required)"

subsection \<open>validateAndTransformOptions\<close>

text \<open>
  The mutable locals of the method and the events so far: \<open>errors\<close>, and the object
  \<open>values\<close> as its own properties \<open>vals\<close> and its prototype \<open>proto\<close> (\<open>JNull\<close>
  when it has none). Each function below returns the state it reached and the error it
  threw, if any.
\<close>

record vstate =
  errors :: "string list"
  vals :: options_object
  proto :: jsval
  trace :: "event list"

text \<open>
  \<open>values[option.name] = v\<close>. \<open>values\<close> starts as the plain object \<open>{}\<close>, so the
  assignment is an ordinary property set: an own property is overwritten; otherwise what the
  prototype chain holds under the name decides. Under the name \<open>__proto__\<close> a plain object
  inherits the accessor of \<open>Object.prototype\<close>, whose setter replaces the prototype when
  given an object or \<open>null\<close>, does nothing for any other value, and creates no own
  property in either case.
\<close>

definition assignProperty :: "vstate \<Rightarrow> string \<Rightarrow> jsval \<Rightarrow> vstate \<times> exn option" where
  "assignProperty st key v =
     (if vals st key \<noteq> None then (st\<lparr>vals := (vals st)(key \<mapsto> v)\<rparr>, None)
      else
        (case findProperty (proto st) key of
           Plain \<Rightarrow> (st\<lparr>vals := (vals st)(key \<mapsto> v)\<rparr>, None)
         | ReadOnly \<Rightarrow>
             (st, Some (TypeError (''Cannot assign to read only property '' @ key)))
         | Setter thrown \<Rightarrow> (st, thrown)
         | ProtoSetter \<Rightarrow>
             (case v of
                JNull \<Rightarrow> (st\<lparr>proto := JNull\<rparr>, None)
              | JObj ident special \<Rightarrow> (st\<lparr>proto := v\<rparr>, None)
              | _ \<Rightarrow> (st, None))))"

definition requiredArg :: "bool \<Rightarrow> option_data \<Rightarrow> bool" where
  "requiredArg skipRequiredCheck opt =
     (if skipRequiredCheck then False
      else (case optRequired opt of Some b \<Rightarrow> b | None \<Rightarrow> False))"

text \<open>
  The \<open>try\<close>/\<open>catch\<close> around the validator. The boolean is \<open>isValid\<close>: only a returned
  string clears it; the \<open>catch\<close> branch pushes the message and leaves it set.
\<close>

definition runValidator ::
  "slash_command \<Rightarrow> interaction \<Rightarrow> option_data \<Rightarrow> jsval \<Rightarrow> vstate
     \<Rightarrow> vstate \<times> (exn + bool)" where
  "runValidator cmd interaction opt v st =
     (case validatorsMap cmd (optName opt) of
        None \<Rightarrow> (st, Inr True)
      | Some f \<Rightarrow>
          if interactionClass interaction \<noteq> CommandInteraction then (st, Inr True)
          else
            (let st1 = st\<lparr>trace := trace st @ [ValidatorCalled (optName opt) v]\<rparr>
             in case f interaction v of
                  Inr (VStr s) \<Rightarrow> (st1\<lparr>errors := errors st1 @ [s]\<rparr>, Inr False)
                | Inr (VBool b) \<Rightarrow> (st1, Inr True)
                | Inl (ValidationError m) \<Rightarrow> (st1\<lparr>errors := errors st1 @ [m]\<rparr>, Inr True)
                | Inl e \<Rightarrow> (st1, Inl e)))"

definition runTransformer ::
  "slash_command \<Rightarrow> option_data \<Rightarrow> jsval \<Rightarrow> vstate \<Rightarrow> vstate \<times> (exn + jsval)" where
  "runTransformer cmd opt v st =
     (case transformersMap cmd (optName opt) of
        None \<Rightarrow> (st, Inr v)
      | Some g \<Rightarrow>
          (st\<lparr>trace := trace st @ [TransformerCalled (optName opt) v]\<rparr>, g v))"

text \<open>One iteration of the \<open>for\<close> loop.\<close>

definition processOption ::
  "slash_command \<Rightarrow> interaction \<Rightarrow> bool \<Rightarrow> option_data \<Rightarrow> vstate
     \<Rightarrow> vstate \<times> exn option" where
  "processOption cmd interaction skipRequiredCheck opt st =
     (case getDataForType interaction (optType opt) (optName opt)
             (requiredArg skipRequiredCheck opt) of
        Inl e \<Rightarrow> (st, Some e)
      | Inr v \<Rightarrow>
          if v = JNull then assignProperty st (optName opt) JNull
          else
            (case runValidator cmd interaction opt v st of
               (st1, Inl e) \<Rightarrow> (st1, Some e)
             | (st1, Inr isValid) \<Rightarrow>
                 if \<not> isValid then (st1, None)
                 else
                   (case runTransformer cmd opt v st1 of
                      (st2, Inl e) \<Rightarrow> (st2, Some e)
                    | (st2, Inr v') \<Rightarrow> assignProperty st2 (optName opt) v')))"

fun optionsLoop ::
  "slash_command \<Rightarrow> interaction \<Rightarrow> bool \<Rightarrow> option_data list \<Rightarrow> vstate
     \<Rightarrow> vstate \<times> exn option" where
  "optionsLoop cmd interaction skipRequiredCheck [] st = (st, None)"
| "optionsLoop cmd interaction skipRequiredCheck (opt # rest) st =
     (case processOption cmd interaction skipRequiredCheck opt st of
        (st1, Some e) \<Rightarrow> (st1, Some e)
      | (st1, None) \<Rightarrow> optionsLoop cmd interaction skipRequiredCheck rest st1)"

text \<open>
  The method returns either the array of messages or the values object, given here by its
  own properties; the caller tells them apart with \<open>Array.isArray\<close>.
\<close>

datatype validation_result = Errors "string list" | Values options_object

definition initialState :: vstate where
  "initialState = \<lparr> errors = [], vals = Map.empty, proto = objectPrototype, trace = [] \<rparr>"

definition validateAndTransformOptions ::
  "slash_command \<Rightarrow> interaction \<Rightarrow> bool \<Rightarrow> event list \<times> (exn + validation_result)" where
  "validateAndTransformOptions cmd interaction skipRequiredCheck =
     (case optionsLoop cmd interaction skipRequiredCheck (options (commandInfo cmd))
             initialState of
        (st, Some e) \<Rightarrow> (trace st, Inl e)
      | (st, None) \<Rightarrow>
          (trace st,
           Inr (if length (errors st) > 0 then Errors (errors st) else Values (vals st))))"

section \<open>The client (SlashasaurusClient.ts)\<close>

subsection \<open>Page persistence defaults\<close>

record page_state =
  pageId :: string
  stateString :: string
  messageData :: string

type_synonym store_page_state_fn = "string \<Rightarrow> string \<Rightarrow> string \<Rightarrow> string \<Rightarrow> exn + unit"
type_synonym get_page_state_fn = "string \<Rightarrow> exn + page_state"

text \<open>
  Both defaults are \<open>async\<close> functions whose body is a single \<open>throw\<close>: whatever the
  arguments, the promise they return is rejected with that error.
\<close>

definition missingPageStoreMessage :: string where
  "missingPageStoreMessage =
     ''You must implement storePageState and getPageState in order to use pages''"

definition defaultPageStore :: store_page_state_fn where
  "defaultPageStore messageId pid state msgData = Inl (Error missingPageStoreMessage)"

definition defaultPageGet :: get_page_state_fn where
  "defaultPageGet messageId = Inl (Error missingPageStoreMessage)"

subsection \<open>Context-menu commands and wire descriptors\<close>

text \<open>
  \<open>ContextMenuBase.ts\<close> is outside the sources at hand; the loaders read only
  \<open>commandInfo\<close> of a context-menu command, of which the name and the DM permission are
  kept here.
\<close>

record context_command =
  contextName :: string
  contextDmPermission :: "bool option"

text \<open>
  What the builders of the chat-platform library are asked to describe. Only the kind, the
  name and the nesting are kept; localisations, descriptions, permissions and the options of
  a command play no part in routing.
\<close>

datatype wire_kind = ChatInput | Subcommand | SubcommandGroup | UserMenu | MessageMenu

datatype wire = Wire wire_kind string "wire list"

subsection \<open>The middleware pipeline\<close>

text \<open>
  Modelled from the spec: the class \<open>Pipeline\<close> of \<open>MiddlewarePipeline.ts\<close>, which is not
  among the sources. The spec: an ordered chain of wrapping functions, each receiving the
  next function in the chain and returning a replacement with the same signature;
  \<open>execute(terminalHandler, ...args)\<close> folds the chain around the terminal handler
  (outermost-registered runs first) and invokes the result with the call arguments.
  Applying \<open>undefined\<close> is a \<open>TypeError\<close> of the language.
\<close>

type_synonym middleware = "run_fn \<Rightarrow> run_fn"

definition callHandler :: "run_fn option \<Rightarrow> run_fn" where
  "callHandler h =
     (case h of
        Some f \<Rightarrow> f
      | None \<Rightarrow> (\<lambda>interaction opts. ([], Some (TypeError ''base is not a function''))))"

definition execute ::
  "middleware list \<Rightarrow> run_fn option \<Rightarrow> interaction \<Rightarrow> options_object
     \<Rightarrow> event list \<times> exn option" where
  "execute stack base interaction opts =
     (foldr (\<lambda>m next. m next) stack (callHandler base)) interaction opts"

subsection \<open>Client state and constructor\<close>

record client =
  commandMap :: "string \<rightharpoonup> slash_command"
  userContextMenuMap :: "string \<rightharpoonup> context_command"
  messageContextMenuMap :: "string \<rightharpoonup> context_command"
  chatCommandMiddleware :: "middleware list"
  storePageState :: store_page_state_fn
  getPageState :: get_page_state_fn
  skipAutocompleteValidationAndTransformation :: bool

record client_options =
  optionsStorePageState :: "store_page_state_fn option"
  optionsGetPageState :: "get_page_state_fn option"
  skipValidationAndTransformationForAutocomplete :: "bool option"

text \<open>
  The constructor; \<open>a ?? b\<close> is \<open>b\<close> exactly when the option is missing. The page cache,
  the logger and the two other pipelines are left out.
\<close>

definition SlashasaurusClient :: "client_options \<Rightarrow> client" where
  "SlashasaurusClient opts =
     \<lparr> commandMap = Map.empty,
       userContextMenuMap = Map.empty,
       messageContextMenuMap = Map.empty,
       chatCommandMiddleware = [],
       storePageState = (case optionsStorePageState opts of
                           Some f \<Rightarrow> f | None \<Rightarrow> defaultPageStore),
       getPageState = (case optionsGetPageState opts of
                         Some g \<Rightarrow> g | None \<Rightarrow> defaultPageGet),
       skipAutocompleteValidationAndTransformation =
         (case skipValidationAndTransformationForAutocomplete opts of
            Some b \<Rightarrow> b | None \<Rightarrow> False) \<rparr>"

definition useCommandMiddleware :: "middleware \<Rightarrow> client \<Rightarrow> client" where
  "useCommandMiddleware fn c = c\<lparr>chatCommandMiddleware := chatCommandMiddleware c @ [fn]\<rparr>"

subsection \<open>handleCommand\<close>

text \<open>\<open>Array.prototype.join\<close> with a separator.\<close>

fun joinWith :: "string \<Rightarrow> string list \<Rightarrow> string" where
  "joinWith sep [] = []"
| "joinWith sep [x] = x"
| "joinWith sep (x # y # rest) = x @ sep @ joinWith sep (y # rest)"

definition newline :: string where
  "newline = [CHR 0x0A]"

text \<open>The run handler of a command, with its invocation made visible in the events.\<close>

definition observedRun :: "string \<Rightarrow> slash_command \<Rightarrow> run_fn option" where
  "observedRun nm command =
     (case run command of
        None \<Rightarrow> None
      | Some f \<Rightarrow>
          Some (\<lambda>interaction opts.
                  (RunCalled nm # fst (f interaction opts), snd (f interaction opts))))"

text \<open>
  The result is the value the promise resolves to (\<open>false\<close>, \<open>undefined\<close> from the bare
  \<open>return\<close>, or \<open>true\<close>) or the error it is rejected with. The reply through the
  connector is an event; the logger is left out. The call site passes
  \<open>this.connector\<close> where the method of \<open>SlashCommandBase.ts\<close> has \<open>skipRequiredCheck\<close>;
  an object is truthy, hence \<open>True\<close>. The flag \<open>1 << 6\<close> marks the reply ephemeral.
\<close>

definition handleCommand ::
  "client \<Rightarrow> string \<Rightarrow> interaction \<Rightarrow> event list \<times> (exn + jsval)" where
  "handleCommand c nm interaction =
     (case commandMap c nm of
        None \<Rightarrow> ([], Inr (JBool False))
      | Some command \<Rightarrow>
          (case validateAndTransformOptions command interaction True of
             (tr, Inl e) \<Rightarrow> (tr, Inl e)
           | (tr, Inr (Errors msgs)) \<Rightarrow>
               (tr @ [ReplyToInteraction (joinWith newline msgs) (push_bit 6 1)],
                Inr JUndefined)
           | (tr, Inr (Values optionsObj)) \<Rightarrow>
               (case execute (chatCommandMiddleware c) (observedRun nm command)
                       interaction optionsObj of
                  (evs, Some e) \<Rightarrow> (tr @ evs, Inl e)
                | (evs, None) \<Rightarrow> (tr @ evs, Inr (JBool True)))))"

subsection \<open>Loading commands from the directory tree\<close>

text \<open>
  What \<open>readdir\<close>, \<open>stat\<close> and \<open>import\<close> show of the file system: an entry is a
  file, with the default export of its module if it has one, or a folder with its entries in
  the order \<open>readdir\<close> lists them. \<open>isChatCommand\<close>, \<open>isUserCommand\<close> and
  \<open>isMessageCommand\<close> tell the kinds of export apart.
\<close>

datatype export =
    ChatCommandExport slash_command
  | UserCommandExport context_command
  | MessageCommandExport context_command
  | OtherExport

datatype entry = File string "export option" | Folder string "entry list"

definition endsWith :: "string \<Rightarrow> string \<Rightarrow> bool" where
  "endsWith s suffix =
     (length suffix \<le> length s \<and> drop (length s - length suffix) s = suffix)"

text \<open>
  \<open>JSFileRegex = /(?<!\.d)(\.js|\.ts)x?$/\<close>: the name ends with one of the four
  extensions and what precedes the extension does not end with \<open>.d\<close>. A character of
  a name stands for one code unit of the JavaScript string.
\<close>

definition hasExtension :: "string \<Rightarrow> string \<Rightarrow> bool" where
  "hasExtension s ext =
     (endsWith s ext \<and> \<not> endsWith (take (length s - length ext) s) ''.d'')"

definition matchesJSFileRegex :: "string \<Rightarrow> bool" where
  "matchesJSFileRegex s =
     (hasExtension s ''.js'' \<or> hasExtension s ''.ts''
      \<or> hasExtension s ''.jsx'' \<or> hasExtension s ''.tsx'')"

text \<open>
  \<open>/_meta(.js|.ts)x?$/\<close>: the dot is not escaped, so any character other than a line
  terminator may stand between \<open>_meta\<close> and \<open>js\<close> or \<open>ts\<close>.
\<close>

definition metaBody :: "string \<Rightarrow> bool" where
  "metaBody s =
     (8 \<le> length s \<and>
      (let t = drop (length s - 8) s
       in take 5 t = ''_meta''
          \<and> t ! 5 \<noteq> CHR 0x0A \<and> t ! 5 \<noteq> CHR 0x0D
          \<and> (drop 6 t = ''js'' \<or> drop 6 t = ''ts'')))"

definition matchesMetaRegex :: "string \<Rightarrow> bool" where
  "matchesMetaRegex s = (if endsWith s ''x'' then metaBody (butlast s) else metaBody s)"

text \<open>\<open>path.join\<close> of a directory and an entry name; no normalisation is modelled.\<close>

definition joinPath :: "string \<Rightarrow> string \<Rightarrow> string" where
  "joinPath dir file = dir @ ''/'' @ file"

definition missingDefaultExport :: "string \<Rightarrow> exn" where
  "missingDefaultExport filePath =
     Error (''Expected a default export in file '' @ filePath @ '' but didn't find one'')"

definition wrongDefaultExport :: "string \<Rightarrow> string \<Rightarrow> exn" where
  "wrongDefaultExport filePath kind =
     Error (''Expected the default export in file '' @ filePath @ '' to be a '' @ kind)"

definition folderInContextMenu :: "string \<Rightarrow> exn" where
  "folderInContextMenu filePath =
     Error (''Found folder at '' @ filePath @ '', context menu commands cannot have subcommands'')"

definition duplicateCommandName :: "string \<Rightarrow> exn" where
  "duplicateCommandName mapName = Error (''Duplicate command name '' @ mapName)"

text \<open>
  Each loader returns the client as the loop left it and either the error thrown or the
  descriptors collected in \<open>commandData\<close>. The first argument of the loops is the
  \<open>path\<close> of the folder being read.
\<close>

fun loadUserCommandsLoop ::
  "string \<Rightarrow> entry list \<Rightarrow> client \<Rightarrow> wire list \<Rightarrow> client \<times> (exn + wire list)" where
  "loadUserCommandsLoop path [] c commandData = (c, Inr commandData)"
| "loadUserCommandsLoop path (Folder folderOrFile sub # rest) c commandData =
     (c, Inl (folderInContextMenu (joinPath path folderOrFile)))"
| "loadUserCommandsLoop path (File folderOrFile data # rest) c commandData =
     (if matchesJSFileRegex folderOrFile then
        (case data of
           None \<Rightarrow> (c, Inl (missingDefaultExport (joinPath path folderOrFile)))
         | Some (UserCommandExport command) \<Rightarrow>
             loadUserCommandsLoop path rest
               (c\<lparr>userContextMenuMap :=
                    (userContextMenuMap c)(contextName command \<mapsto> command)\<rparr>)
               (commandData @ [Wire UserMenu (contextName command) []])
         | Some other \<Rightarrow>
             (c, Inl (wrongDefaultExport (joinPath path folderOrFile) ''UserCommand'')))
      else loadUserCommandsLoop path rest c commandData)"

definition loadUserCommands ::
  "string \<Rightarrow> entry list \<Rightarrow> client \<Rightarrow> client \<times> (exn + wire list)" where
  "loadUserCommands path topLevel c = loadUserCommandsLoop path topLevel c []"

fun loadMessageCommandsLoop ::
  "string \<Rightarrow> entry list \<Rightarrow> client \<Rightarrow> wire list \<Rightarrow> client \<times> (exn + wire list)" where
  "loadMessageCommandsLoop path [] c commandData = (c, Inr commandData)"
| "loadMessageCommandsLoop path (Folder folderOrFile sub # rest) c commandData =
     (c, Inl (folderInContextMenu (joinPath path folderOrFile)))"
| "loadMessageCommandsLoop path (File folderOrFile data # rest) c commandData =
     (if matchesJSFileRegex folderOrFile then
        (case data of
           None \<Rightarrow> (c, Inl (missingDefaultExport (joinPath path folderOrFile)))
         | Some (MessageCommandExport command) \<Rightarrow>
             loadMessageCommandsLoop path rest
               (c\<lparr>messageContextMenuMap :=
                    (messageContextMenuMap c)(contextName command \<mapsto> command)\<rparr>)
               (commandData @ [Wire MessageMenu (contextName command) []])
         | Some other \<Rightarrow>
             (c, Inl (wrongDefaultExport (joinPath path folderOrFile) ''MessageCommand'')))
      else loadMessageCommandsLoop path rest c commandData)"

definition loadMessageCommands ::
  "string \<Rightarrow> entry list \<Rightarrow> client \<Rightarrow> client \<times> (exn + wire list)" where
  "loadMessageCommands path topLevel c = loadMessageCommandsLoop path topLevel c []"

text \<open>
  The step the three chat loaders share: the checks on the imported module, the duplicate
  check on the dispatch key and the insertion. It yields the client with the command
  inserted.
\<close>

definition addChatCommand ::
  "string \<Rightarrow> string \<Rightarrow> export option \<Rightarrow> client \<Rightarrow> exn + (client \<times> slash_command)" where
  "addChatCommand filePath prefix data c =
     (case data of
        None \<Rightarrow> Inl (missingDefaultExport filePath)
      | Some (ChatCommandExport command) \<Rightarrow>
          (let mapName = prefix @ name (commandInfo command)
           in if commandMap c mapName \<noteq> None then Inl (duplicateCommandName mapName)
              else Inr (c\<lparr>commandMap := (commandMap c)(mapName \<mapsto> command)\<rparr>, command))
      | Some other \<Rightarrow> Inl (wrongDefaultExport filePath ''SlashCommand''))"

fun loadSubFolderLevelTwoLoop ::
  "string \<Rightarrow> string \<Rightarrow> string \<Rightarrow> entry list \<Rightarrow> client \<Rightarrow> wire list
     \<Rightarrow> client \<times> (exn + wire list)" where
  "loadSubFolderLevelTwoLoop path nm parentName [] c commandData = (c, Inr commandData)"
| "loadSubFolderLevelTwoLoop path nm parentName (Folder folderOrFile sub # rest) c commandData =
     loadSubFolderLevelTwoLoop path nm parentName rest c commandData"
| "loadSubFolderLevelTwoLoop path nm parentName (File folderOrFile data # rest) c commandData =
     (if matchesMetaRegex folderOrFile then
        loadSubFolderLevelTwoLoop path nm parentName rest c commandData
      else if matchesJSFileRegex folderOrFile then
        (case addChatCommand (joinPath path folderOrFile)
                (parentName @ ''.'' @ nm @ ''.'') data c of
           Inl e \<Rightarrow> (c, Inl e)
         | Inr (c1, command) \<Rightarrow>
             loadSubFolderLevelTwoLoop path nm parentName rest c1
               (commandData @ [Wire Subcommand (name (commandInfo command)) []]))
      else loadSubFolderLevelTwoLoop path nm parentName rest c commandData)"

definition loadSubFolderLevelTwo ::
  "string \<Rightarrow> string \<Rightarrow> string \<Rightarrow> entry list \<Rightarrow> client \<Rightarrow> client \<times> (exn + wire)" where
  "loadSubFolderLevelTwo path nm parentName topLevel c =
     (case loadSubFolderLevelTwoLoop path nm parentName topLevel c [] of
        (c1, Inl e) \<Rightarrow> (c1, Inl e)
      | (c1, Inr commandData) \<Rightarrow> (c1, Inr (Wire SubcommandGroup nm commandData)))"

fun loadSubFolderLevelOneLoop ::
  "string \<Rightarrow> string \<Rightarrow> entry list \<Rightarrow> client \<Rightarrow> wire list \<Rightarrow> client \<times> (exn + wire list)" where
  "loadSubFolderLevelOneLoop path nm [] c commandData = (c, Inr commandData)"
| "loadSubFolderLevelOneLoop path nm (Folder folderOrFile sub # rest) c commandData =
     (case loadSubFolderLevelTwo (joinPath path folderOrFile) folderOrFile nm sub c of
        (c1, Inl e) \<Rightarrow> (c1, Inl e)
      | (c1, Inr builder) \<Rightarrow>
          loadSubFolderLevelOneLoop path nm rest c1 (commandData @ [builder]))"
| "loadSubFolderLevelOneLoop path nm (File folderOrFile data # rest) c commandData =
     (if matchesMetaRegex folderOrFile then
        loadSubFolderLevelOneLoop path nm rest c commandData
      else if matchesJSFileRegex folderOrFile then
        (case addChatCommand (joinPath path folderOrFile) (nm @ ''.'') data c of
           Inl e \<Rightarrow> (c, Inl e)
         | Inr (c1, command) \<Rightarrow>
             loadSubFolderLevelOneLoop path nm rest c1
               (commandData @ [Wire Subcommand (name (commandInfo command)) []]))
      else loadSubFolderLevelOneLoop path nm rest c commandData)"

definition loadSubFolderLevelOne ::
  "string \<Rightarrow> string \<Rightarrow> entry list \<Rightarrow> client \<Rightarrow> client \<times> (exn + wire)" where
  "loadSubFolderLevelOne path nm topLevel c =
     (case loadSubFolderLevelOneLoop path nm topLevel c [] of
        (c1, Inl e) \<Rightarrow> (c1, Inl e)
      | (c1, Inr commandData) \<Rightarrow> (c1, Inr (Wire ChatInput nm commandData)))"

fun loadTopLevelCommandsLoop ::
  "string \<Rightarrow> entry list \<Rightarrow> client \<Rightarrow> wire list \<Rightarrow> client \<times> (exn + wire list)" where
  "loadTopLevelCommandsLoop path [] c commandData = (c, Inr commandData)"
| "loadTopLevelCommandsLoop path (Folder folderOrFile sub # rest) c commandData =
     (case loadSubFolderLevelOne (joinPath path folderOrFile) folderOrFile sub c of
        (c1, Inl e) \<Rightarrow> (c1, Inl e)
      | (c1, Inr builder) \<Rightarrow> loadTopLevelCommandsLoop path rest c1 (commandData @ [builder]))"
| "loadTopLevelCommandsLoop path (File folderOrFile data # rest) c commandData =
     (if matchesJSFileRegex folderOrFile then
        (case addChatCommand (joinPath path folderOrFile) [] data c of
           Inl e \<Rightarrow> (c, Inl e)
         | Inr (c1, command) \<Rightarrow>
             loadTopLevelCommandsLoop path rest c1
               (commandData @ [Wire ChatInput (name (commandInfo command)) []]))
      else loadTopLevelCommandsLoop path rest c commandData)"

definition loadTopLevelCommands ::
  "string \<Rightarrow> entry list \<Rightarrow> client \<Rightarrow> client \<times> (exn + wire list)" where
  "loadTopLevelCommands path topLevel c = loadTopLevelCommandsLoop path topLevel c []"

text \<open>
  \<open>registerCommandsFrom\<close>. A loader starts with \<open>readdir\<close> of its folder, which fails on
  a file. The registration call is the \<open>PUT\<close> of all collected descriptors; it is made
  after the loop and only when \<open>register && token\<close>.
\<close>

definition readdir :: "string \<Rightarrow> entry \<Rightarrow> exn + entry list" where
  "readdir path e =
     (case e of
        Folder nm sub \<Rightarrow> Inr sub
      | File nm data \<Rightarrow> Inl (Error (''ENOTDIR: not a directory, scandir '' @ path)))"

definition entryName :: "entry \<Rightarrow> string" where
  "entryName e = (case e of Folder nm sub \<Rightarrow> nm | File nm data \<Rightarrow> nm)"

definition loadFolder ::
  "string \<Rightarrow> entry \<Rightarrow> client \<Rightarrow> client \<times> (exn + wire list)" where
  "loadFolder folderPath e c =
     (let folderName = entryName e; path = joinPath folderPath folderName
      in if folderName = ''chat'' then
           (case readdir path e of
              Inl err \<Rightarrow> (c, Inl err) | Inr sub \<Rightarrow> loadTopLevelCommands path sub c)
         else if folderName = ''message'' then
           (case readdir path e of
              Inl err \<Rightarrow> (c, Inl err) | Inr sub \<Rightarrow> loadMessageCommands path sub c)
         else if folderName = ''user'' then
           (case readdir path e of
              Inl err \<Rightarrow> (c, Inl err) | Inr sub \<Rightarrow> loadUserCommands path sub c)
         else (c, Inr []))"

fun loadFolders ::
  "string \<Rightarrow> entry list \<Rightarrow> client \<Rightarrow> wire list \<Rightarrow> client \<times> (exn + wire list)" where
  "loadFolders folderPath [] c commandData = (c, Inr commandData)"
| "loadFolders folderPath (e # rest) c commandData =
     (case loadFolder folderPath e c of
        (c1, Inl err) \<Rightarrow> (c1, Inl err)
      | (c1, Inr loaded) \<Rightarrow> loadFolders folderPath rest c1 (commandData @ loaded))"

datatype rest_call = PutApplicationCommands "wire list"

definition truthy :: "string option \<Rightarrow> bool" where
  "truthy token = (case token of Some t \<Rightarrow> t \<noteq> [] | None \<Rightarrow> False)"

definition registerCommandsFrom ::
  "string \<Rightarrow> entry list \<Rightarrow> bool \<Rightarrow> string option \<Rightarrow> client
     \<Rightarrow> client \<times> rest_call list \<times> exn option" where
  "registerCommandsFrom folderPath topLevelFolders register token c =
     (case loadFolders folderPath topLevelFolders c [] of
        (c1, Inl err) \<Rightarrow> (c1, [], Some err)
      | (c1, Inr commandData) \<Rightarrow>
          (c1, if register \<and> truthy token then [PutApplicationCommands commandData] else [],
           None))"

section \<open>The collected messages, as the specification words them\<close>

text \<open>
  The specification of the validation pass: a validator that returns a string rejects the
  option with that message, a validator that throws a recognised validation error rejects it
  with the error's message, and nothing else produces a message. An absent option, an option
  without a validator and an autocomplete pass produce none. The result of a pass that
  collected messages is their list, in declaration order.
\<close>

definition validatorVerdict :: "exn + validate_result \<Rightarrow> string list" where
  "validatorVerdict outcome =
     (case outcome of
        Inr (VStr s) \<Rightarrow> [s]
      | Inr (VBool b) \<Rightarrow> []
      | Inl (ValidationError m) \<Rightarrow> [m]
      | Inl e \<Rightarrow> [])"

definition validatorMessages ::
  "slash_command \<Rightarrow> interaction \<Rightarrow> option_data \<Rightarrow> jsval \<Rightarrow> string list" where
  "validatorMessages cmd interaction opt v =
     (case validatorsMap cmd (optName opt) of
        None \<Rightarrow> []
      | Some f \<Rightarrow>
          if interactionClass interaction \<noteq> CommandInteraction then []
          else validatorVerdict (f interaction v))"

definition rejectionMessages ::
  "slash_command \<Rightarrow> interaction \<Rightarrow> bool \<Rightarrow> option_data \<Rightarrow> string list" where
  "rejectionMessages cmd interaction skipRequiredCheck opt =
     (case getDataForType interaction (optType opt) (optName opt)
             (requiredArg skipRequiredCheck opt) of
        Inl e \<Rightarrow> []
      | Inr v \<Rightarrow> if v = JNull then [] else validatorMessages cmd interaction opt v)"

text \<open>The option whose validator or transformer an event reports, and validator calls.\<close>

fun eventOption :: "event \<Rightarrow> string option" where
  "eventOption (ValidatorCalled n v) = Some n"
| "eventOption (TransformerCalled n v) = Some n"
| "eventOption e = None"

fun isValidatorCall :: "event \<Rightarrow> bool" where
  "isValidatorCall (ValidatorCalled n v) = True"
| "isValidatorCall e = False"

section \<open>A sample command\<close>

text \<open>
  An options resolver that holds the supplied options by name: a missing option is
  \<open>null\<close>, or an error when it was asked for as required.
\<close>

definition sampleOptionsGet ::
  "(string \<times> jsval) list \<Rightarrow> getter \<Rightarrow> string \<Rightarrow> bool \<Rightarrow> exn + jsval" where
  "sampleOptionsGet supplied g nm required =
     (case map_of supplied nm of
        Some v \<Rightarrow> Inr v
      | None \<Rightarrow> if required then Inl (TypeError ''Required option not found'') else Inr JNull)"

definition commandInteraction :: "(string \<times> jsval) list \<Rightarrow> interaction" where
  "commandInteraction supplied =
     \<lparr> interactionClass = CommandInteraction, optionsGet = sampleOptionsGet supplied \<rparr>"

definition autocompleteInteraction :: "(string \<times> jsval) list \<Rightarrow> interaction" where
  "autocompleteInteraction supplied =
     \<lparr> interactionClass = AutocompleteInteraction, optionsGet = sampleOptionsGet supplied \<rparr>"

text \<open>
  \<open>/order item note count\<close>: the item must not be empty (rejected by a returned string),
  a note longer than five characters is rejected by a thrown \<open>ValidationError\<close> and an
  accepted note is prefixed, the count must be positive (returned string), is doubled when
  accepted, and beyond a hundred the validator fails with an ordinary error.
\<close>

definition itemValidator :: validator_fn where
  "itemValidator interaction v =
     (if v = JStr [] then Inr (VStr ''item must not be empty'') else Inr (VBool True))"

definition noteValidator :: validator_fn where
  "noteValidator interaction v =
     (case v of
        JStr s \<Rightarrow> if length s > 5 then Inl (ValidationError ''note is too long'')
                  else Inr (VBool True)
      | _ \<Rightarrow> Inr (VBool True))"

definition noteTransformer :: transformer_fn where
  "noteTransformer v = (case v of JStr s \<Rightarrow> Inr (JStr (''note: '' @ s)) | _ \<Rightarrow> Inr v)"

definition countValidator :: validator_fn where
  "countValidator interaction v =
     (case v of
        JNum n \<Rightarrow> if n \<le> 0 then Inr (VStr ''count must be positive'')
                  else if n > 100 then Inl (Error ''stock service unavailable'')
                  else Inr (VBool True)
      | _ \<Rightarrow> Inr (VBool True))"

definition countTransformer :: transformer_fn where
  "countTransformer v = (case v of JNum n \<Rightarrow> Inr (JNum (2 * n)) | _ \<Rightarrow> Inr v)"

definition itemOption :: option_data where
  "itemOption = \<lparr> optName = ''item'', optType = Literal STRING, optRequired = Some True,
                  validator = Some itemValidator, transformer = None \<rparr>"

definition noteOption :: option_data where
  "noteOption = \<lparr> optName = ''note'', optType = Literal STRING, optRequired = None,
                  validator = Some noteValidator, transformer = Some noteTransformer \<rparr>"

definition countOption :: option_data where
  "countOption = \<lparr> optName = ''count'', optType = Enum INTEGER, optRequired = Some False,
                   validator = Some countValidator, transformer = Some countTransformer \<rparr>"

definition orderInfo :: chat_command_options where
  "orderInfo = \<lparr> name = ''order'', description = ''Place an order'',
                 options = [itemOption, noteOption, countOption] \<rparr>"

definition orderRun :: run_fn where
  "orderRun interaction opts = ([InteractionReply ''ordered'' False], None)"

definition orderCommand :: slash_command where
  "orderCommand =
     SlashCommand orderInfo \<lparr> handlersRun = Some orderRun, handlersAutocomplete = None \<rparr>"

text \<open>A command built from a handlers object that has no \<open>run\<close>.\<close>

definition pingInfo :: chat_command_options where
  "pingInfo = \<lparr> name = ''ping'', description = ''Ping'', options = [] \<rparr>"

definition pingCommand :: slash_command where
  "pingCommand =
     SlashCommand pingInfo \<lparr> handlersRun = None, handlersAutocomplete = None \<rparr>"

text \<open>A command that declares an option under the name \<open>__proto__\<close>.\<close>

definition protoOption :: option_data where
  "protoOption = \<lparr> optName = ''__proto__'', optType = Literal STRING, optRequired = None,
                   validator = None, transformer = None \<rparr>"

definition protoInfo :: chat_command_options where
  "protoInfo = \<lparr> name = ''inspect'', description = ''Inspect'', options = [protoOption] \<rparr>"

definition protoCommand :: slash_command where
  "protoCommand =
     SlashCommand protoInfo \<lparr> handlersRun = Some orderRun, handlersAutocomplete = None \<rparr>"

definition sampleClient :: client where
  "sampleClient =
     (SlashasaurusClient \<lparr> optionsStorePageState = None, optionsGetPageState = None,
                           skipValidationAndTransformationForAutocomplete = None \<rparr>)
       \<lparr> commandMap := [''order'' \<mapsto> orderCommand, ''ping'' \<mapsto> pingCommand] \<rparr>"

text \<open>
  Two command trees. In the first, two files of \<open>user/\<close> export user commands of the
  same name; in the second, two files of \<open>chat/\<close> export chat commands of the same name.
\<close>

definition reportA :: context_command where
  "reportA = \<lparr> contextName = ''Report'', contextDmPermission = Some True \<rparr>"

definition reportB :: context_command where
  "reportB = \<lparr> contextName = ''Report'', contextDmPermission = Some False \<rparr>"

definition userTree :: "entry list" where
  "userTree =
     [Folder ''user''
        [File ''reportA.ts'' (Some (UserCommandExport reportA)),
         File ''reportB.ts'' (Some (UserCommandExport reportB))]]"

definition messageTree :: "entry list" where
  "messageTree =
     [Folder ''message''
        [File ''reportA.js'' (Some (MessageCommandExport reportA)),
         File ''reportB.js'' (Some (MessageCommandExport reportB))]]"

definition chatTree :: "entry list" where
  "chatTree =
     [Folder ''chat''
        [File ''ping.ts'' (Some (ChatCommandExport pingCommand)),
         File ''pong.ts'' (Some (ChatCommandExport pingCommand))]]"

definition emptyClient :: client where
  "emptyClient =
     SlashasaurusClient \<lparr> optionsStorePageState = None, optionsGetPageState = None,
                          skipValidationAndTransformationForAutocomplete = None \<rparr>"

section \<open>Properties of the validation pass\<close>

subsection \<open>Assignments to the values object\<close>

lemma assignProperty_frame:
  assumes "assignProperty st key v = (s1, r)"
  shows "errors s1 = errors st \<and> trace s1 = trace st
         \<and> (\<forall>n. n \<noteq> key \<longrightarrow> vals s1 n = vals st n)
         \<and> (vals s1 = vals st \<or> vals s1 = (vals st)(key \<mapsto> v))"
proof (cases "vals st key \<noteq> None")
  case True
  with assms show ?thesis by (auto simp: assignProperty_def)
next
  case False
  show ?thesis
  proof (cases "findProperty (proto st) key")
    case Plain
    with False assms show ?thesis by (auto simp: assignProperty_def)
  next
    case ReadOnly
    with False assms show ?thesis by (auto simp: assignProperty_def)
  next
    case (Setter thrown)
    with False assms show ?thesis by (auto simp: assignProperty_def)
  next
    case ProtoSetter
    with False assms show ?thesis by (cases v) (auto simp: assignProperty_def)
  qed
qed

lemma findProperty_objectPrototype:
  "key \<noteq> ''__proto__'' \<Longrightarrow> findProperty objectPrototype key = Plain"
  by (simp add: findProperty_def objectPrototype_def)

lemma assignProperty_plain:
  assumes "proto st = objectPrototype" "key \<noteq> ''__proto__''"
  shows "assignProperty st key v = (st\<lparr>vals := (vals st)(key \<mapsto> v)\<rparr>, None)"
  using assms by (simp add: assignProperty_def findProperty_objectPrototype)

subsection \<open>What one iteration changes\<close>

lemma runValidator_trace:
  "runValidator cmd i opt v st = (st1, r) \<Longrightarrow>
     \<exists>new. trace st1 = trace st @ new \<and> (\<forall>e \<in> set new. eventOption e = Some (optName opt))
       \<and> vals st1 = vals st \<and> proto st1 = proto st"
  by (auto simp: runValidator_def Let_def split: option.splits if_splits sum.splits validate_result.splits exn.splits)

lemma runTransformer_trace:
  "runTransformer cmd opt v st = (s2, r) \<Longrightarrow>
     \<exists>new. trace s2 = trace st @ new \<and> (\<forall>e \<in> set new. eventOption e = Some (optName opt))
       \<and> vals s2 = vals st \<and> errors s2 = errors st \<and> proto s2 = proto st"
  by (auto simp: runTransformer_def split: option.splits)

lemma processOption_throws_get:
  assumes "getDataForType i (optType opt) (optName opt) (requiredArg skip opt) = Inl e"
  shows "processOption cmd i skip opt st = (st, Some e)"
  using assms by (simp add: processOption_def)

lemma processOption_absent:
  assumes "getDataForType i (optType opt) (optName opt) (requiredArg skip opt) = Inr JNull"
  shows "processOption cmd i skip opt st = assignProperty st (optName opt) JNull"
  using assms by (simp add: processOption_def)

lemma processOption_present:
  assumes "getDataForType i (optType opt) (optName opt) (requiredArg skip opt) = Inr v" "v \<noteq> JNull"
  shows "processOption cmd i skip opt st =
          (case runValidator cmd i opt v st of
               (st1, Inl e) \<Rightarrow> (st1, Some e)
             | (st1, Inr isValid) \<Rightarrow>
                 if \<not> isValid then (st1, None)
                 else
                   (case runTransformer cmd opt v st1 of
                      (st2, Inl e) \<Rightarrow> (st2, Some e)
                    | (st2, Inr v') \<Rightarrow> assignProperty st2 (optName opt) v'))"
  using assms by (simp add: processOption_def)

lemma processOption_present_eq:
  assumes g: "getDataForType i (optType opt) (optName opt) (requiredArg skip opt) = Inr v"
      and nn: "v \<noteq> JNull"
      and rv: "runValidator cmd i opt v st = (s1, r1)"
      and rt: "runTransformer cmd opt v s1 = (s2, r2)"
  shows "processOption cmd i skip opt st =
           (case r1 of
              Inl e \<Rightarrow> (s1, Some e)
            | Inr isValid \<Rightarrow>
                if \<not> isValid then (s1, None)
                else (case r2 of
                        Inl e \<Rightarrow> (s2, Some e)
                      | Inr v' \<Rightarrow> assignProperty s2 (optName opt) v'))"
  unfolding processOption_present[OF g nn] rv
  by (cases r1; cases r2) (auto simp: rt split: if_splits)

text \<open>The shape of every iteration: where the state came from.\<close>

lemma processOption_shape:
  assumes p: "processOption cmd i skip opt st = (st1, r)"
  shows "\<exists>sm new. trace sm = trace st @ new
            \<and> (\<forall>e \<in> set new. eventOption e = Some (optName opt))
            \<and> vals sm = vals st \<and> proto sm = proto st
            \<and> (\<exists>more. errors sm = errors st @ more)
            \<and> (st1 = sm \<or> (\<exists>w r'. assignProperty sm (optName opt) w = (st1, r')))"
proof (cases "getDataForType i (optType opt) (optName opt) (requiredArg skip opt)")
  case (Inl e)
  with p have "st1 = st" by (simp add: processOption_throws_get)
  then show ?thesis by (intro exI[of _ st] exI[of _ "[]"]) simp
next
  case (Inr v)
  show ?thesis
  proof (cases "v = JNull")
    case True
    with Inr p have "assignProperty st (optName opt) JNull = (st1, r)"
      by (simp add: processOption_absent)
    then show ?thesis by (intro exI[of _ st] exI[of _ "[]"]) auto
  next
    case False
    obtain s1 r1 where rv: "runValidator cmd i opt v st = (s1, r1)" by fastforce
    obtain s2 r2 where rt: "runTransformer cmd opt v s1 = (s2, r2)" by fastforce
    from runValidator_trace[OF rv] obtain n1 where
      n1: "trace s1 = trace st @ n1" "\<forall>e \<in> set n1. eventOption e = Some (optName opt)"
          "vals s1 = vals st" "proto s1 = proto st" by blast
    from runTransformer_trace[OF rt] obtain n2 where
      n2: "trace s2 = trace s1 @ n2" "\<forall>e \<in> set n2. eventOption e = Some (optName opt)"
          "vals s2 = vals s1" "errors s2 = errors s1" "proto s2 = proto s1" by blast
    have e1: "\<exists>more. errors s1 = errors st @ more"
      using rv
      by (auto simp: runValidator_def Let_def
          split: option.splits if_splits sum.splits validate_result.splits exn.splits)
    note eq = p[unfolded processOption_present_eq[OF Inr False rv rt]]
    from eq have "st1 = s1 \<or> st1 = s2 \<or> (\<exists>w r'. assignProperty s2 (optName opt) w = (st1, r'))"
      by (cases r1; cases r2) (auto split: if_splits)
    then consider "st1 = s1" | "st1 = s2 \<or> (\<exists>w r'. assignProperty s2 (optName opt) w = (st1, r'))"
      by blast
    then show ?thesis
    proof cases
      case 1
      show ?thesis
        by (rule exI[of _ s1], rule exI[of _ n1]) (use 1 n1 e1 in auto)
    next
      case 2
      have "trace s2 = trace st @ (n1 @ n2)" using n1 n2 by simp
      moreover have "\<forall>e \<in> set (n1 @ n2). eventOption e = Some (optName opt)" using n1 n2 by auto
      moreover have "vals s2 = vals st" "proto s2 = proto st" using n1 n2 by simp_all
      moreover have "\<exists>more. errors s2 = errors st @ more" using e1 n2 by simp
      ultimately show ?thesis using 2
        by (intro exI[of _ s2] exI[of _ "n1 @ n2"]) blast
    qed
  qed
qed

lemma processOption_trace:
  assumes "processOption cmd i skip opt st = (st1, r)"
  shows "\<exists>new. trace st1 = trace st @ new \<and> (\<forall>e \<in> set new. eventOption e = Some (optName opt))"
proof -
  from processOption_shape[OF assms] obtain sm new where
    s: "trace sm = trace st @ new" "\<forall>e \<in> set new. eventOption e = Some (optName opt)"
       "st1 = sm \<or> (\<exists>w r'. assignProperty sm (optName opt) w = (st1, r'))" by blast
  from s(3) have "trace st1 = trace sm" using assignProperty_frame by blast
  with s show ?thesis by auto
qed

lemma processOption_vals_other:
  assumes "processOption cmd i skip opt st = (st1, r)" "n \<noteq> optName opt"
  shows "vals st1 n = vals st n"
proof -
  from processOption_shape[OF assms(1)] obtain sm where
    s: "vals sm = vals st"
       "st1 = sm \<or> (\<exists>w r'. assignProperty sm (optName opt) w = (st1, r'))" by blast
  from s(2) assms(2) have "vals st1 n = vals sm n" using assignProperty_frame by blast
  with s show ?thesis by simp
qed

lemma processOption_dom:
  assumes "processOption cmd i skip opt st = (st1, r)" "vals st n \<noteq> None"
  shows "vals st1 n \<noteq> None"
proof -
  from processOption_shape[OF assms(1)] obtain sm where
    s: "vals sm = vals st"
       "st1 = sm \<or> (\<exists>w r'. assignProperty sm (optName opt) w = (st1, r'))" by blast
  from s(2) have "vals st1 = vals sm \<or> (\<exists>w. vals st1 = (vals sm)(optName opt \<mapsto> w))"
    using assignProperty_frame by blast
  with s(1) assms(2) show ?thesis by auto
qed

lemma processOption_errors_mono:
  assumes "processOption cmd i skip opt st = (st1, r)"
  shows "\<exists>more. errors st1 = errors st @ more"
proof -
  from processOption_shape[OF assms] obtain sm more where
    s: "errors sm = errors st @ more"
       "st1 = sm \<or> (\<exists>w r'. assignProperty sm (optName opt) w = (st1, r'))" by blast
  from s(2) have "errors st1 = errors sm" using assignProperty_frame by blast
  with s show ?thesis by auto
qed

lemma processOption_proto:
  assumes p: "processOption cmd i skip opt st = (st1, r)"
      and pr: "proto st = objectPrototype" and nm: "optName opt \<noteq> ''__proto__''"
  shows "proto st1 = objectPrototype"
proof -
  from processOption_shape[OF p] obtain sm where
    s: "proto sm = proto st"
       "st1 = sm \<or> (\<exists>w r'. assignProperty sm (optName opt) w = (st1, r'))" by blast
  from s(1) pr have "proto sm = objectPrototype" by simp
  with s(2) nm show ?thesis by (auto simp: assignProperty_plain)
qed

subsection \<open>The loop\<close>

lemma optionsLoop_trace:
  "optionsLoop cmd i skip opts st = (st1, r) \<Longrightarrow>
    \<exists>new. trace st1 = trace st @ new \<and> (\<forall>e \<in> set new. \<exists>d \<in> set opts. eventOption e = Some (optName d))"
proof (induction opts arbitrary: st)
  case Nil
  then show ?case by simp
next
  case (Cons a opts)
  obtain s2 r2 where p: "processOption cmd i skip a st = (s2, r2)" by fastforce
  from processOption_trace[OF p] obtain n1 where n1: "trace s2 = trace st @ n1" "\<forall>e \<in> set n1. eventOption e = Some (optName a)" by blast
  show ?case
  proof (cases r2)
    case None
    with Cons.prems p have "optionsLoop cmd i skip opts s2 = (st1, r)" by simp
    from Cons.IH[OF this] obtain n2 where n2: "trace st1 = trace s2 @ n2" "\<forall>e \<in> set n2. \<exists>d \<in> set opts. eventOption e = Some (optName d)" by blast
    have "trace st1 = trace st @ (n1 @ n2)" using n1 n2 by simp
    moreover have "\<forall>e \<in> set (n1 @ n2). \<exists>d \<in> set (a # opts). eventOption e = Some (optName d)"
      using n1 n2 by auto
    ultimately show ?thesis by blast
  next
    case (Some e)
    with Cons.prems p have "st1 = s2" by simp
    then show ?thesis using n1 by auto
  qed
qed

lemma optionsLoop_vals_other:
  "optionsLoop cmd i skip opts st = (st1, r) \<Longrightarrow> n \<notin> optName ` set opts \<Longrightarrow> vals st1 n = vals st n"
proof (induction opts arbitrary: st)
  case Nil
  then show ?case by simp
next
  case (Cons a opts)
  obtain s2 r2 where p: "processOption cmd i skip a st = (s2, r2)" by fastforce
  have v: "vals s2 n = vals st n" using processOption_vals_other[OF p] Cons.prems(2) by auto
  show ?case
  proof (cases r2)
    case None
    with Cons.prems p have "optionsLoop cmd i skip opts s2 = (st1, r)" by simp
    from Cons.IH[OF this] Cons.prems(2) v show ?thesis by auto
  next
    case (Some e)
    with Cons.prems p have "st1 = s2" by simp
    then show ?thesis using v by simp
  qed
qed

lemma optionsLoop_append:
  "optionsLoop cmd i skip (xs @ ys) st =
     (case optionsLoop cmd i skip xs st of
        (st1, Some e) \<Rightarrow> (st1, Some e)
      | (st1, None) \<Rightarrow> optionsLoop cmd i skip ys st1)"
  by (induction xs arbitrary: st) (auto split: prod.splits option.splits)

lemma runValidator_errors:
  assumes "runValidator cmd i opt v st = (st1, Inr b)"
  shows "errors st1 = errors st @ validatorMessages cmd i opt v"
proof (cases "validatorsMap cmd (optName opt)")
  case None
  with assms show ?thesis by (simp add: runValidator_def validatorMessages_def)
next
  case (Some f)
  show ?thesis
  proof (cases "interactionClass i = CommandInteraction")
    case False
    with Some assms show ?thesis by (simp add: runValidator_def validatorMessages_def)
  next
    case True
    show ?thesis
    proof (cases "f i v")
      case (Inl e)
      with Some True assms show ?thesis
        by (cases e) (auto simp: runValidator_def validatorMessages_def validatorVerdict_def Let_def)
    next
      case (Inr res)
      with Some True assms show ?thesis
        by (cases res) (auto simp: runValidator_def validatorMessages_def validatorVerdict_def Let_def)
    qed
  qed
qed

lemma runValidator_invalid:
  assumes "runValidator cmd i opt v st = (st1, Inr False)"
  shows "validatorMessages cmd i opt v \<noteq> []"
proof (cases "validatorsMap cmd (optName opt)")
  case None
  with assms show ?thesis by (simp add: runValidator_def)
next
  case (Some f)
  show ?thesis
  proof (cases "interactionClass i = CommandInteraction")
    case False
    with Some assms show ?thesis by (simp add: runValidator_def)
  next
    case True
    show ?thesis
    proof (cases "f i v")
      case (Inl e)
      with Some True assms show ?thesis
        by (cases e) (auto simp: runValidator_def Let_def)
    next
      case (Inr res)
      with Some True assms show ?thesis
        by (cases res) (auto simp: runValidator_def validatorMessages_def validatorVerdict_def Let_def)
    qed
  qed
qed

lemma processOption_errors:
  assumes "processOption cmd i skip opt st = (st1, None)"
  shows "errors st1 = errors st @ rejectionMessages cmd i skip opt"
proof (cases "getDataForType i (optType opt) (optName opt) (requiredArg skip opt)")
  case (Inl e)
  with assms show ?thesis by (simp add: processOption_throws_get)
next
  case (Inr v)
  show ?thesis
  proof (cases "v = JNull")
    case True
    with Inr assms have "assignProperty st (optName opt) JNull = (st1, None)"
      by (simp add: processOption_absent)
    from assignProperty_frame[OF this] Inr True show ?thesis
      by (simp add: rejectionMessages_def)
  next
    case False
    obtain s1 r1 where rv: "runValidator cmd i opt v st = (s1, r1)" by fastforce
    obtain s2 r2 where rt: "runTransformer cmd opt v s1 = (s2, r2)" by fastforce
    have rm: "rejectionMessages cmd i skip opt = validatorMessages cmd i opt v"
      using Inr False by (simp add: rejectionMessages_def)
    note eq = assms[unfolded processOption_present_eq[OF Inr False rv rt]]
    show ?thesis
    proof (cases r1)
      case (Inl e)
      with eq show ?thesis by simp
    next
      case b: (Inr b)
      from runValidator_errors[OF rv[unfolded b]]
      have e1: "errors s1 = errors st @ validatorMessages cmd i opt v" .
      show ?thesis
      proof (cases b)
        case False
        with eq b have "st1 = s1" by simp
        with e1 rm show ?thesis by simp
      next
        case True
        from runTransformer_trace[OF rt] have e2: "errors s2 = errors s1" by blast
        from eq b True obtain w where "assignProperty s2 (optName opt) w = (st1, None)"
          by (cases r2) auto
        from assignProperty_frame[OF this] have "errors st1 = errors s2" by simp
        with e1 e2 rm show ?thesis by simp
      qed
    qed
  qed
qed

lemma optionsLoop_errors:
  "optionsLoop cmd i skip opts st = (st1, None) \<Longrightarrow>
     errors st1 = errors st @ concat (map (rejectionMessages cmd i skip) opts)"
proof (induction opts arbitrary: st)
  case Nil
  then show ?case by simp
next
  case (Cons a opts)
  obtain s2 r2 where p: "processOption cmd i skip a st = (s2, r2)" by fastforce
  with Cons.prems have r2: "r2 = None" by (auto split: option.splits)
  with Cons.prems p have l: "optionsLoop cmd i skip opts s2 = (st1, None)" by simp
  show ?case using processOption_errors[OF p[unfolded r2]] Cons.IH[OF l] by simp
qed

lemma validate_unfold:
  assumes "optionsLoop cmd i skip (options (commandInfo cmd)) initialState = (st, r0)"
  shows "validateAndTransformOptions cmd i skip =
           (trace st,
            case r0 of
              Some e \<Rightarrow> Inl e
            | None \<Rightarrow> Inr (if length (errors st) > 0 then Errors (errors st) else Values (vals st)))"
  unfolding validateAndTransformOptions_def assms by (cases r0) simp_all

lemma validate_returns:
  assumes "snd (validateAndTransformOptions cmd i skip) = Inr r"
  shows "\<exists>st. optionsLoop cmd i skip (options (commandInfo cmd)) initialState = (st, None)
           \<and> r = (if length (errors st) > 0 then Errors (errors st) else Values (vals st))
           \<and> fst (validateAndTransformOptions cmd i skip) = trace st"
proof -
  obtain st r0 where l: "optionsLoop cmd i skip (options (commandInfo cmd)) initialState = (st, r0)"
    by fastforce
  from assms have "r0 = None" unfolding validate_unfold[OF l] by (cases r0) simp_all
  with assms l show ?thesis unfolding validate_unfold[OF l] by simp
qed

lemma optionsLoop_dom:
  "optionsLoop cmd i skip opts st = (st1, r) \<Longrightarrow> vals st n \<noteq> None \<Longrightarrow> vals st1 n \<noteq> None"
proof (induction opts arbitrary: st)
  case Nil
  then show ?case by simp
next
  case (Cons a opts)
  obtain s2 r2 where p: "processOption cmd i skip a st = (s2, r2)" by fastforce
  have v: "vals s2 n \<noteq> None" using processOption_dom[OF p Cons.prems(2)] .
  show ?case
  proof (cases r2)
    case None
    with Cons.prems p have "optionsLoop cmd i skip opts s2 = (st1, r)" by simp
    from Cons.IH[OF this v] show ?thesis .
  next
    case (Some e)
    with Cons.prems p have "st1 = s2" by simp
    then show ?thesis using v by simp
  qed
qed

lemma runTransformer_result:
  assumes "runTransformer cmd opt v st = (s2, r2)"
  shows "r2 = (case transformersMap cmd (optName opt) of None \<Rightarrow> Inr v | Some g \<Rightarrow> g v)"
  using assms by (auto simp: runTransformer_def split: option.splits)

lemma optionsLoop_split:
  assumes "optionsLoop cmd i skip (xs @ ys) st = (st1, None)"
  shows "\<exists>sa. optionsLoop cmd i skip xs st = (sa, None) \<and> optionsLoop cmd i skip ys sa = (st1, None)"
proof -
  obtain sa ra where a: "optionsLoop cmd i skip xs st = (sa, ra)" by fastforce
  from assms have "ra = None" unfolding optionsLoop_append a by (cases ra) simp_all
  with assms a show ?thesis unfolding optionsLoop_append by simp
qed

lemma optionsLoop_Cons_None:
  assumes "optionsLoop cmd i skip (x # ys) st = (st1, None)"
  shows "\<exists>sa. processOption cmd i skip x st = (sa, None) \<and> optionsLoop cmd i skip ys sa = (st1, None)"
proof -
  obtain sa ra where a: "processOption cmd i skip x st = (sa, ra)" by fastforce
  from assms have "ra = None" by (cases ra) (simp_all add: a)
  with assms a show ?thesis by simp
qed

lemma optionsLoop_proto:
  "optionsLoop cmd i skip opts st = (st1, r) \<Longrightarrow> proto st = objectPrototype \<Longrightarrow>
   ''__proto__'' \<notin> optName ` set opts \<Longrightarrow> proto st1 = objectPrototype"
proof (induction opts arbitrary: st)
  case Nil
  then show ?case by simp
next
  case (Cons a opts)
  obtain s2 r2 where p: "processOption cmd i skip a st = (s2, r2)" by fastforce
  from Cons.prems(3) have "optName a \<noteq> ''__proto__''" by auto
  from processOption_proto[OF p Cons.prems(2) this] have pr: "proto s2 = objectPrototype" .
  show ?case
  proof (cases r2)
    case None
    with Cons.prems p have "optionsLoop cmd i skip opts s2 = (st1, r)" by simp
    from Cons.IH[OF this pr] Cons.prems(3) show ?thesis by simp
  next
    case (Some e)
    with Cons.prems p have "st1 = s2" by simp
    then show ?thesis using pr by simp
  qed
qed

text \<open>What one accepted option leaves in a plain values object.\<close>

lemma processOption_accepted:
  assumes p: "processOption cmd i skip opt st = (st1, None)"
      and rej: "rejectionMessages cmd i skip opt = []"
      and pr: "proto st = objectPrototype"
      and nm: "optName opt \<noteq> ''__proto__''"
  shows "\<exists>v. getDataForType i (optType opt) (optName opt) (requiredArg skip opt) = Inr v \<and>
           (v = JNull \<longrightarrow> vals st1 (optName opt) = Some JNull) \<and>
           (v \<noteq> JNull \<longrightarrow>
              (case transformersMap cmd (optName opt) of
                 None \<Rightarrow> vals st1 (optName opt) = Some v
               | Some g \<Rightarrow> \<exists>v'. g v = Inr v' \<and> vals st1 (optName opt) = Some v'))"
proof (cases "getDataForType i (optType opt) (optName opt) (requiredArg skip opt)")
  case (Inl e)
  with p show ?thesis by (simp add: processOption_throws_get)
next
  case (Inr v)
  show ?thesis
  proof (cases "v = JNull")
    case True
    with Inr p show ?thesis
      by (auto simp: processOption_absent assignProperty_plain[OF pr nm])
  next
    case False
    obtain s1 r1 where rv: "runValidator cmd i opt v st = (s1, r1)" by fastforce
    obtain s2 r2 where rt: "runTransformer cmd opt v s1 = (s2, r2)" by fastforce
    have vm: "validatorMessages cmd i opt v = []"
      using rej Inr False by (simp add: rejectionMessages_def)
    from runValidator_trace[OF rv] runTransformer_trace[OF rt] pr
    have pr2: "proto s2 = objectPrototype" by auto
    note eq = p[unfolded processOption_present_eq[OF Inr False rv rt]]
    have r1: "r1 = Inr True"
    proof (cases r1)
      case (Inl e)
      with eq show ?thesis by simp
    next
      case b: (Inr b)
      show ?thesis
      proof (cases b)
        case True
        with b show ?thesis by simp
      next
        case False
        with runValidator_invalid[of cmd i opt v st s1] rv b vm show ?thesis by simp
      qed
    qed
    from eq r1 obtain v' where r2: "r2 = Inr v'"
      and st1: "st1 = s2\<lparr>vals := (vals s2)(optName opt \<mapsto> v')\<rparr>"
      by (cases r2) (auto simp: assignProperty_plain[OF pr2 nm])
    from runTransformer_result[OF rt] r2
    have "(case transformersMap cmd (optName opt) of None \<Rightarrow> Inr v | Some g \<Rightarrow> g v) = Inr v'" by simp
    then have "(case transformersMap cmd (optName opt) of
                 None \<Rightarrow> vals st1 (optName opt) = Some v
               | Some g \<Rightarrow> \<exists>v'. g v = Inr v' \<and> vals st1 (optName opt) = Some v')"
      using st1 by (cases "transformersMap cmd (optName opt)") auto
    with Inr False show ?thesis by simp
  qed
qed

lemma runValidator_autocomplete:
  assumes "interactionClass i \<noteq> CommandInteraction"
  shows "runValidator cmd i opt v st = (st, Inr True)"
  using assms by (simp add: runValidator_def split: option.splits)

lemma runTransformer_novalidator:
  assumes "runTransformer cmd opt v st = (s2, r2)"
  shows "filter isValidatorCall (trace s2) = filter isValidatorCall (trace st)"
  using assms by (auto simp: runTransformer_def split: option.splits)

lemma processOption_autocomplete:
  assumes cls: "interactionClass i \<noteq> CommandInteraction"
      and p: "processOption cmd i skip opt st = (st1, r)"
  shows "filter isValidatorCall (trace st1) = filter isValidatorCall (trace st)"
proof (cases "getDataForType i (optType opt) (optName opt) (requiredArg skip opt)")
  case (Inl e)
  with p show ?thesis by (simp add: processOption_throws_get)
next
  case (Inr v)
  show ?thesis
  proof (cases "v = JNull")
    case True
    with Inr p have "assignProperty st (optName opt) JNull = (st1, r)"
      by (simp add: processOption_absent)
    from assignProperty_frame[OF this] show ?thesis by simp
  next
    case False
    obtain s2 r2 where rt: "runTransformer cmd opt v st = (s2, r2)" by fastforce
    from p[unfolded processOption_present_eq[OF Inr False runValidator_autocomplete[OF cls] rt]]
    have "st1 = s2 \<or> (\<exists>w. assignProperty s2 (optName opt) w = (st1, r))"
      by (cases r2) auto
    then have "trace st1 = trace s2" using assignProperty_frame by blast
    with runTransformer_novalidator[OF rt] show ?thesis by simp
  qed
qed

lemma optionsLoop_autocomplete:
  "interactionClass i \<noteq> CommandInteraction \<Longrightarrow> optionsLoop cmd i skip opts st = (st1, r) \<Longrightarrow>
     filter isValidatorCall (trace st1) = filter isValidatorCall (trace st)"
proof (induction opts arbitrary: st)
  case Nil
  then show ?case by simp
next
  case (Cons a opts)
  obtain s2 r2 where p: "processOption cmd i skip a st = (s2, r2)" by fastforce
  note h = processOption_autocomplete[OF Cons.prems(1) p]
  show ?case
  proof (cases r2)
    case None
    with Cons.prems p have "optionsLoop cmd i skip opts s2 = (st1, r)" by simp
    from Cons.IH[OF Cons.prems(1) this] h show ?thesis by simp
  next
    case (Some e)
    with Cons.prems p have "st1 = s2" by simp
    then show ?thesis using h by simp
  qed
qed

lemma validate_trace:
  "\<exists>st r0. optionsLoop cmd i skip (options (commandInfo cmd)) initialState = (st, r0)
      \<and> fst (validateAndTransformOptions cmd i skip) = trace st"
proof -
  obtain st r0 where l: "optionsLoop cmd i skip (options (commandInfo cmd)) initialState = (st, r0)"
    by fastforce
  then show ?thesis unfolding validate_unfold[OF l] by simp
qed



lemma runValidator_throw_other:
  assumes "validatorsMap cmd (optName opt) = Some f"
      and "interactionClass i = CommandInteraction"
      and "f i v = Inl e"
      and "\<forall>m. e \<noteq> ValidationError m"
  shows "runValidator cmd i opt v st =
           (st\<lparr>trace := trace st @ [ValidatorCalled (optName opt) v]\<rparr>, Inl e)"
  using assms by (cases e) (simp_all add: runValidator_def Let_def)

lemma runValidator_throw_validation:
  assumes "validatorsMap cmd (optName opt) = Some f"
      and "interactionClass i = CommandInteraction"
      and "f i v = Inl (ValidationError m)"
  shows "runValidator cmd i opt v st =
           (st\<lparr>trace := trace st @ [ValidatorCalled (optName opt) v],
               errors := errors st @ [m]\<rparr>, Inr True)"
  using assms by (simp add: runValidator_def Let_def)

lemma optionsLoop_errors_mono:
  "optionsLoop cmd i skip opts st = (st1, r) \<Longrightarrow> \<exists>more. errors st1 = errors st @ more"
proof (induction opts arbitrary: st)
  case Nil
  then show ?case by simp
next
  case (Cons a opts)
  obtain s2 r2 where p: "processOption cmd i skip a st = (s2, r2)" by fastforce
  from processOption_errors_mono[OF p] obtain m1 where m1: "errors s2 = errors st @ m1" by blast
  show ?case
  proof (cases r2)
    case None
    with Cons.prems p have "optionsLoop cmd i skip opts s2 = (st1, r)" by simp
    from Cons.IH[OF this] m1 show ?thesis by auto
  next
    case (Some e)
    with Cons.prems p have "st1 = s2" by simp
    then show ?thesis using m1 by simp
  qed
qed

text \<open>Events of the validation pass are validator and transformer calls only.\<close>

lemma validate_events:
  assumes "e \<in> set (fst (validateAndTransformOptions cmd i skip))"
  shows "eventOption e \<noteq> None"
proof -
  from validate_trace obtain st r0 where
    l: "optionsLoop cmd i skip (options (commandInfo cmd)) initialState = (st, r0)"
    and t: "fst (validateAndTransformOptions cmd i skip) = trace st" by blast
  from optionsLoop_trace[OF l] obtain new where
    "trace st = trace initialState @ new"
    "\<forall>e \<in> set new. \<exists>d \<in> set (options (commandInfo cmd)). eventOption e = Some (optName d)"
    by blast
  with assms t show ?thesis by (auto simp: initialState_def)
qed

subsection \<open>Unfolding the sample commands\<close>

lemmas sample_defs =
  orderCommand_def SlashCommand_def orderInfo_def registerOption_def
  itemOption_def noteOption_def countOption_def
  commandInteraction_def autocompleteInteraction_def sampleOptionsGet_def
  itemValidator_def noteValidator_def noteTransformer_def countValidator_def
  countTransformer_def orderRun_def pingCommand_def pingInfo_def
  protoCommand_def protoInfo_def protoOption_def

lemmas pass_defs =
  validateAndTransformOptions_def initialState_def processOption_def runValidator_def
  runTransformer_def getDataForType_def requiredArg_def Let_def
  assignProperty_def findProperty_def objectPrototype_def

lemmas client_defs =
  handleCommand_def sampleClient_def SlashasaurusClient_def execute_def callHandler_def
  observedRun_def newline_def

lemmas load_defs =
  registerCommandsFrom_def loadFolder_def entryName_def readdir_def joinPath_def
  loadUserCommands_def loadMessageCommands_def loadTopLevelCommands_def
  matchesJSFileRegex_def hasExtension_def endsWith_def truthy_def
  addChatCommand_def duplicateCommandName_def emptyClient_def SlashasaurusClient_def

section \<open>The claims\<close>

text \<open>
  Claim C1, as amended. \<open>handleCommand\<close> resolves to \<open>false\<close> when no command is
  registered under the dotted name, and nothing is sent. An error thrown during validation
  propagates. When validation returns messages,
  exactly one reply is sent through the connector, ephemeral (flag 64), its content the
  messages joined by newlines; the run handler is not invoked and the promise resolves to
  \<open>undefined\<close>, not to a boolean. When validation returns values, the handler is
  executed through the chat middleware pipeline on them, and the result is \<open>true\<close>
  unless the pipeline throws, in which case the error propagates.
\<close>

theorem handleCommand_outcomes:
  "(commandMap c nm = None \<longrightarrow> handleCommand c nm interaction = ([], Inr (JBool False)))
   \<and> (\<forall>command tr err.
         commandMap c nm = Some command
         \<and> validateAndTransformOptions command interaction True = (tr, Inl err)
         \<longrightarrow> handleCommand c nm interaction = (tr, Inl err))
   \<and> (\<forall>command tr msgs.
         commandMap c nm = Some command
         \<and> validateAndTransformOptions command interaction True = (tr, Inr (Errors msgs))
         \<longrightarrow> handleCommand c nm interaction =
               (tr @ [ReplyToInteraction (joinWith newline msgs) 64], Inr JUndefined)
             \<and> [e \<leftarrow> fst (handleCommand c nm interaction). eventOption e = None] =
                 [ReplyToInteraction (joinWith newline msgs) 64])
   \<and> (\<forall>command tr vs.
         commandMap c nm = Some command
         \<and> validateAndTransformOptions command interaction True = (tr, Inr (Values vs))
         \<longrightarrow> fst (handleCommand c nm interaction) =
               tr @ fst (execute (chatCommandMiddleware c) (observedRun nm command) interaction vs)
             \<and> snd (handleCommand c nm interaction) =
                 (case snd (execute (chatCommandMiddleware c) (observedRun nm command)
                              interaction vs) of
                    None \<Rightarrow> Inr (JBool True)
                  | Some e \<Rightarrow> Inl e))"
proof (intro conjI allI impI)
  assume "commandMap c nm = None"
  then show "handleCommand c nm interaction = ([], Inr (JBool False))"
    by (simp add: handleCommand_def)
next
  fix command tr err
  assume "commandMap c nm = Some command
         \<and> validateAndTransformOptions command interaction True = (tr, Inl err)"
  then show "handleCommand c nm interaction = (tr, Inl err)"
    by (simp add: handleCommand_def)
next
  fix command tr msgs
  assume h: "commandMap c nm = Some command
         \<and> validateAndTransformOptions command interaction True = (tr, Inr (Errors msgs))"
  then show eq: "handleCommand c nm interaction =
               (tr @ [ReplyToInteraction (joinWith newline msgs) 64], Inr JUndefined)"
    by (simp add: handleCommand_def)
  from h have "fst (validateAndTransformOptions command interaction True) = tr" by simp
  with validate_events[of _ command interaction True]
  have "\<forall>e \<in> set tr. eventOption e \<noteq> None" by blast
  then have "[e \<leftarrow> tr. eventOption e = None] = []" by (simp add: filter_empty_conv)
  then show "[e \<leftarrow> fst (handleCommand c nm interaction). eventOption e = None] =
                 [ReplyToInteraction (joinWith newline msgs) 64]"
    unfolding eq by simp
next
  fix command tr vs
  assume h: "commandMap c nm = Some command
         \<and> validateAndTransformOptions command interaction True = (tr, Inr (Values vs))"
  obtain evs r where ex: "execute (chatCommandMiddleware c) (observedRun nm command) interaction vs
      = (evs, r)" by fastforce
  from h have eq: "handleCommand c nm interaction =
      (tr @ evs, case r of None \<Rightarrow> Inr (JBool True) | Some e \<Rightarrow> Inl e)"
    by (cases r) (simp_all add: handleCommand_def ex)
  show "fst (handleCommand c nm interaction) =
               tr @ fst (execute (chatCommandMiddleware c) (observedRun nm command) interaction vs)"
    unfolding eq ex by simp
  show "snd (handleCommand c nm interaction) =
                 (case snd (execute (chatCommandMiddleware c) (observedRun nm command)
                              interaction vs) of
                    None \<Rightarrow> Inr (JBool True)
                  | Some e \<Rightarrow> Inl e)"
    unfolding eq ex by simp
qed

text \<open>
  The three outcomes on the sample client: an unknown name, an order with an empty item and
  a count of zero, and a valid order.
\<close>

theorem handleCommand_outcomes_witness:
  "handleCommand sampleClient ''refund'' (commandInteraction []) = ([], Inr (JBool False))
   \<and> handleCommand sampleClient ''order''
         (commandInteraction [(''item'', JStr []), (''count'', JNum 0)]) =
       ([ValidatorCalled ''item'' (JStr []), ValidatorCalled ''count'' (JNum 0),
         ReplyToInteraction
           (''item must not be empty'' @ [CHR 0x0A] @ ''count must be positive'') 64],
        Inr JUndefined)
   \<and> handleCommand sampleClient ''order''
         (commandInteraction [(''item'', JStr ''tea''), (''count'', JNum 2)]) =
       ([ValidatorCalled ''item'' (JStr ''tea''), ValidatorCalled ''count'' (JNum 2),
         TransformerCalled ''count'' (JNum 2),
         RunCalled ''order'', InteractionReply ''ordered'' False],
        Inr (JBool True))"
proof -
  let ?bad = "commandInteraction [(''item'', JStr []), (''count'', JNum 0)]"
  let ?good = "commandInteraction [(''item'', JStr ''tea''), (''count'', JNum 2)]"
  have none: "commandMap sampleClient ''refund'' = None"
    by (simp add: sampleClient_def)
  have some: "commandMap sampleClient ''order'' = Some orderCommand"
    by (simp add: sampleClient_def)
  have bad: "validateAndTransformOptions orderCommand ?bad True =
      ([ValidatorCalled ''item'' (JStr []), ValidatorCalled ''count'' (JNum 0)],
       Inr (Errors [''item must not be empty'', ''count must be positive'']))"
    by (simp add: sample_defs pass_defs)
  have good: "validateAndTransformOptions orderCommand ?good True =
      ([ValidatorCalled ''item'' (JStr ''tea''), ValidatorCalled ''count'' (JNum 2),
        TransformerCalled ''count'' (JNum 2)],
       Inr (Values [''item'' \<mapsto> JStr ''tea'', ''note'' \<mapsto> JNull, ''count'' \<mapsto> JNum 4]))"
    by (simp add: sample_defs pass_defs)
  have run: "execute (chatCommandMiddleware sampleClient) (observedRun ''order'' orderCommand)
       ?good [''item'' \<mapsto> JStr ''tea'', ''note'' \<mapsto> JNull, ''count'' \<mapsto> JNum 4] =
      ([RunCalled ''order'', InteractionReply ''ordered'' False], None)"
    by (simp add: client_defs sample_defs)
  note t1 = handleCommand_outcomes[of sampleClient "''refund''" "commandInteraction []"]
  note t2 = handleCommand_outcomes[of sampleClient "''order''" ?bad]
  note t3 = handleCommand_outcomes[of sampleClient "''order''" ?good]
  from t1 none have a: "handleCommand sampleClient ''refund'' (commandInteraction []) =
      ([], Inr (JBool False))" by blast
  from t2 some bad have b: "handleCommand sampleClient ''order'' ?bad =
      ([ValidatorCalled ''item'' (JStr []), ValidatorCalled ''count'' (JNum 0)]
         @ [ReplyToInteraction
              (joinWith newline [''item must not be empty'', ''count must be positive'']) 64],
       Inr JUndefined)" by blast
  from t3 some good have
    "fst (handleCommand sampleClient ''order'' ?good) =
       [ValidatorCalled ''item'' (JStr ''tea''), ValidatorCalled ''count'' (JNum 2),
        TransformerCalled ''count'' (JNum 2)]
       @ fst (execute (chatCommandMiddleware sampleClient) (observedRun ''order'' orderCommand)
                ?good [''item'' \<mapsto> JStr ''tea'', ''note'' \<mapsto> JNull, ''count'' \<mapsto> JNum 4])"
    "snd (handleCommand sampleClient ''order'' ?good) =
       (case snd (execute (chatCommandMiddleware sampleClient)
                    (observedRun ''order'' orderCommand)
                    ?good [''item'' \<mapsto> JStr ''tea'', ''note'' \<mapsto> JNull, ''count'' \<mapsto> JNum 4]) of
          None \<Rightarrow> Inr (JBool True)
        | Some e \<Rightarrow> Inl e)" by blast+
  then have c: "handleCommand sampleClient ''order'' ?good =
       ([ValidatorCalled ''item'' (JStr ''tea''), ValidatorCalled ''count'' (JNum 2),
         TransformerCalled ''count'' (JNum 2),
         RunCalled ''order'', InteractionReply ''ordered'' False],
        Inr (JBool True))"
    unfolding run by (simp add: prod_eq_iff)
  from a b c show ?thesis by (simp add: newline_def)
qed

text \<open>
  The claim as stated fails where validation rejects: the value is \<open>undefined\<close>, which is
  neither \<open>true\<close> nor \<open>false\<close>.
\<close>

theorem handleCommand_returns_undefined:
  "snd (handleCommand sampleClient ''order'' (commandInteraction [(''item'', JStr [])]))
     = Inr JUndefined"
  by (simp add: client_defs sample_defs pass_defs)



text \<open>
  Claim C3. Two files of \<open>user/\<close> (or of \<open>message/\<close>) that export commands of the
  same name: the load does not fail, the second command replaces the first in the registry,
  and the registration call is made with both descriptors. Two files of \<open>chat/\<close> with
  the same name abort the load before any registration call.
\<close>

theorem context_menu_duplicate_overwrites:
  "(case registerCommandsFrom ''commands'' userTree True (Some ''token'') emptyClient of
      (c, calls, err) \<Rightarrow>
        userContextMenuMap c ''Report'' = Some reportB
        \<and> calls = [PutApplicationCommands
                      [Wire UserMenu ''Report'' [], Wire UserMenu ''Report'' []]]
        \<and> err = None)
   \<and> (case registerCommandsFrom ''commands'' messageTree True (Some ''token'') emptyClient of
      (c, calls, err) \<Rightarrow>
        messageContextMenuMap c ''Report'' = Some reportB
        \<and> calls = [PutApplicationCommands
                      [Wire MessageMenu ''Report'' [], Wire MessageMenu ''Report'' []]]
        \<and> err = None)
   \<and> (case registerCommandsFrom ''commands'' chatTree True (Some ''token'') emptyClient of
      (c, calls, err) \<Rightarrow>
        calls = [] \<and> err = Some (Error ''Duplicate command name ping''))"
proof (intro conjI)
  show "case registerCommandsFrom ''commands'' userTree True (Some ''token'') emptyClient of
      (c, calls, err) \<Rightarrow>
        userContextMenuMap c ''Report'' = Some reportB
        \<and> calls = [PutApplicationCommands
                      [Wire UserMenu ''Report'' [], Wire UserMenu ''Report'' []]]
        \<and> err = None"
    by (simp add: load_defs userTree_def reportA_def reportB_def)
  show "case registerCommandsFrom ''commands'' messageTree True (Some ''token'') emptyClient of
      (c, calls, err) \<Rightarrow>
        messageContextMenuMap c ''Report'' = Some reportB
        \<and> calls = [PutApplicationCommands
                      [Wire MessageMenu ''Report'' [], Wire MessageMenu ''Report'' []]]
        \<and> err = None"
    by (simp add: load_defs messageTree_def reportA_def reportB_def)
  show "case registerCommandsFrom ''commands'' chatTree True (Some ''token'') emptyClient of
      (c, calls, err) \<Rightarrow>
        calls = [] \<and> err = Some (Error ''Duplicate command name ping'')"
    by (simp add: load_defs chatTree_def pingCommand_def SlashCommand_def pingInfo_def)
qed

text \<open>
  Claim C4. On the sample command, a note that is too long makes the validator throw a
  \<open>ValidationError\<close>; the message is collected, and the transformer of the rejected
  option is called all the same. A count rejected by a returned string does not reach its
  transformer.
\<close>

theorem transformer_runs_after_validation_error:
  "validateAndTransformOptions orderCommand
     (commandInteraction [(''item'', JStr ''tea''), (''note'', JStr ''much too long''),
                          (''count'', JNum 0)]) False
   = ([ValidatorCalled ''item'' (JStr ''tea''),
       ValidatorCalled ''note'' (JStr ''much too long''),
       TransformerCalled ''note'' (JStr ''much too long''),
       ValidatorCalled ''count'' (JNum 0)],
      Inr (Errors [''note is too long'', ''count must be positive'']))"
  by (simp add: sample_defs pass_defs)




text \<open>
  Claim C6. Let the options before \<open>opt\<close> pass without a throw, and let the validator of
  \<open>opt\<close> throw on the value supplied in a command interaction. If it throws a
  \<open>ValidationError\<close>, the validation step does not throw, the message is appended to the
  error list, and a pass that returns gives an error list containing it. If it throws
  anything else, the whole pass ends there with that very error, and no later option is
  looked at.
\<close>

theorem validator_throw_handling:
  assumes opts: "options (commandInfo cmd) = pre @ opt # post"
      and pre: "optionsLoop cmd interaction skip pre initialState = (st, None)"
      and g: "getDataForType interaction (optType opt) (optName opt) (requiredArg skip opt) = Inr v"
      and nn: "v \<noteq> JNull"
      and f: "validatorsMap cmd (optName opt) = Some f"
      and cls: "interactionClass interaction = CommandInteraction"
      and thrown: "f interaction v = Inl e"
  shows "(\<forall>m. e = ValidationError m \<longrightarrow>
            (\<exists>s1 isValid. runValidator cmd interaction opt v st = (s1, Inr isValid)
                \<and> errors s1 = errors st @ [m])
          \<and> (\<forall>r. snd (validateAndTransformOptions cmd interaction skip) = Inr r
                \<longrightarrow> (\<exists>msgs. r = Errors msgs \<and> m \<in> set msgs)))
       \<and> ((\<forall>m. e \<noteq> ValidationError m) \<longrightarrow>
            validateAndTransformOptions cmd interaction skip =
              (trace st @ [ValidatorCalled (optName opt) v], Inl e))"
proof (intro conjI allI impI)
  fix m assume e: "e = ValidationError m"
  note rv = runValidator_throw_validation[OF f cls thrown[unfolded e], of st]
  then show "\<exists>s1 isValid. runValidator cmd interaction opt v st = (s1, Inr isValid)
                \<and> errors s1 = errors st @ [m]" by auto
  fix r assume ret: "snd (validateAndTransformOptions cmd interaction skip) = Inr r"
  from validate_returns[OF ret] obtain sf where
    l: "optionsLoop cmd interaction skip (options (commandInfo cmd)) initialState = (sf, None)"
    and r: "r = (if length (errors sf) > 0 then Errors (errors sf) else Values (vals sf))"
    by blast
  from optionsLoop_split[OF l[unfolded opts]] pre
  have "optionsLoop cmd interaction skip (opt # post) st = (sf, None)" by simp
  from optionsLoop_Cons_None[OF this] obtain sb where
    p: "processOption cmd interaction skip opt st = (sb, None)"
    and lp: "optionsLoop cmd interaction skip post sb = (sf, None)" by blast
  obtain s2 r2 where rt: "runTransformer cmd opt v
       (st\<lparr>trace := trace st @ [ValidatorCalled (optName opt) v], errors := errors st @ [m]\<rparr>) = (s2, r2)"
    by fastforce
  from runTransformer_trace[OF rt] have e2: "errors s2 = errors st @ [m]" by auto
  from p[unfolded processOption_present_eq[OF g nn rv rt]]
  obtain w where "assignProperty s2 (optName opt) w = (sb, None)" by (cases r2) auto
  from assignProperty_frame[OF this] have "errors sb = errors s2" by simp
  with e2 optionsLoop_errors_mono[OF lp] have "m \<in> set (errors sf)" by auto
  then have "r = Errors (errors sf)" using r by (cases "errors sf") auto
  with \<open>m \<in> set (errors sf)\<close> show "\<exists>msgs. r = Errors msgs \<and> m \<in> set msgs" by blast
next
  assume other: "\<forall>m. e \<noteq> ValidationError m"
  note rv = runValidator_throw_other[OF f cls thrown other, of st]
  obtain s2 r2 where rt: "runTransformer cmd opt v
       (st\<lparr>trace := trace st @ [ValidatorCalled (optName opt) v]\<rparr>) = (s2, r2)"
    by fastforce
  have p: "processOption cmd interaction skip opt st =
      (st\<lparr>trace := trace st @ [ValidatorCalled (optName opt) v]\<rparr>, Some e)"
    unfolding processOption_present_eq[OF g nn rv rt] by simp
  have "optionsLoop cmd interaction skip (options (commandInfo cmd)) initialState =
      (st\<lparr>trace := trace st @ [ValidatorCalled (optName opt) v]\<rparr>, Some e)"
    unfolding opts optionsLoop_append pre by (simp add: p)
  from validate_unfold[OF this]
  show "validateAndTransformOptions cmd interaction skip =
              (trace st @ [ValidatorCalled (optName opt) v], Inl e)" by simp
qed

text \<open>A count beyond a hundred makes the validator of the third option fail.\<close>

theorem validator_throw_handling_witness:
  "countValidator (commandInteraction [(''item'', JStr ''tea''), (''count'', JNum 500)]) (JNum 500)
     = Inl (Error ''stock service unavailable'')
   \<and> validateAndTransformOptions orderCommand
         (commandInteraction [(''item'', JStr ''tea''), (''count'', JNum 500)]) False
       = ([ValidatorCalled ''item'' (JStr ''tea''), ValidatorCalled ''count'' (JNum 500)],
          Inl (Error ''stock service unavailable''))"
proof -
  let ?i = "commandInteraction [(''item'', JStr ''tea''), (''count'', JNum 500)]"
  let ?st = "\<lparr> errors = [], vals = [''item'' \<mapsto> JStr ''tea'', ''note'' \<mapsto> JNull],
               proto = objectPrototype,
               trace = [ValidatorCalled ''item'' (JStr ''tea'')] \<rparr>"
  have opts: "options (commandInfo orderCommand) = [itemOption, noteOption] @ countOption # []"
    by (simp add: orderCommand_def SlashCommand_def orderInfo_def Let_def)
  have pre: "optionsLoop orderCommand ?i False [itemOption, noteOption] initialState = (?st, None)"
    by (simp add: sample_defs pass_defs)
  have g: "getDataForType ?i (optType countOption) (optName countOption)
             (requiredArg False countOption) = Inr (JNum 500)"
    by (simp add: sample_defs pass_defs)
  have nn: "JNum 500 \<noteq> JNull" by simp
  have f: "validatorsMap orderCommand (optName countOption) = Some countValidator"
    by (simp add: sample_defs)
  have cls: "interactionClass ?i = CommandInteraction"
    by (simp add: commandInteraction_def)
  have thrown: "countValidator ?i (JNum 500) = Inl (Error ''stock service unavailable'')"
    by (simp add: countValidator_def)
  from validator_throw_handling[OF opts pre g nn f cls thrown] thrown
  show ?thesis by (simp add: countOption_def)
qed

text \<open>
  Claim C7. When the interaction is not a command interaction (an autocomplete pass), no
  validator is called for any option, whatever was typed so far; validators run for
  command interactions only.
\<close>

theorem autocomplete_skips_validators:
  assumes "interactionClass interaction \<noteq> CommandInteraction"
  shows "ValidatorCalled nm v \<notin> set (fst (validateAndTransformOptions cmd interaction skip))"
proof -
  from validate_trace obtain st r0 where
    l: "optionsLoop cmd interaction skip (options (commandInfo cmd)) initialState = (st, r0)"
    and t: "fst (validateAndTransformOptions cmd interaction skip) = trace st" by blast
  from optionsLoop_autocomplete[OF assms l]
  have "filter isValidatorCall (trace st) = []" by (simp add: initialState_def)
  then have "\<forall>e \<in> set (trace st). \<not> isValidatorCall e" by (simp add: filter_empty_conv)
  then show ?thesis unfolding t by auto
qed

text \<open>The empty item that a submission rejects goes unvalidated while it is typed.\<close>

theorem autocomplete_skips_validators_witness:
  "interactionClass (autocompleteInteraction [(''item'', JStr [])]) \<noteq> CommandInteraction
   \<and> ValidatorCalled ''item'' (JStr []) \<notin> set (fst (validateAndTransformOptions orderCommand
         (autocompleteInteraction [(''item'', JStr [])]) True))"
proof -
  have h: "interactionClass (autocompleteInteraction [(''item'', JStr [])]) \<noteq> CommandInteraction"
    by (simp add: autocompleteInteraction_def)
  from autocomplete_skips_validators[OF h] h show ?thesis by simp
qed

text \<open>
  Claim C8, as amended. The \<open>run\<close> of a constructed command is whatever the handlers
  object holds under \<open>run\<close> (the handlers type demands one); the method \<open>run\<close> of the
  class body, which replies with the ephemeral message "This command is not implemented
  yet" and does not throw, is never what the constructor leaves in place. A command
  constructed without an autocomplete handler keeps the default one, which responds with
  exactly one placeholder choice and does not throw.
\<close>

theorem default_handlers:
  "run (SlashCommand info hs) = handlersRun hs
   \<and> defaultRun interaction opts =
       ([InteractionReply ''This command is not implemented yet'' True], None)
   \<and> (handlersAutocomplete hs = None \<longrightarrow>
        autocomplete (SlashCommand info hs) interaction focusedName focusedValue opts =
          ([InteractionRespond [(''This interaction isn't implemented yet'', ''error'')]], None))"
  by (simp add: SlashCommand_def Let_def defaultRun_def defaultAutocomplete_def)

theorem default_handlers_witness:
  "handlersAutocomplete \<lparr>handlersRun = Some orderRun, handlersAutocomplete = None\<rparr> = None
   \<and> run orderCommand = Some orderRun
   \<and> autocomplete orderCommand (autocompleteInteraction []) ''item'' (JStr ''t'') Map.empty =
       ([InteractionRespond [(''This interaction isn't implemented yet'', ''error'')]], None)"
  using default_handlers[of orderInfo "\<lparr>handlersRun = Some orderRun, handlersAutocomplete = None\<rparr>"
      "autocompleteInteraction []" Map.empty "''item''" "JStr ''t''"]
  by (simp add: orderCommand_def)

text \<open>
  The claim as stated fails: a command constructed without \<open>run\<close> has no handler at all,
  and dispatching it through an empty pipeline sends no reply and ends in a
  \<open>TypeError\<close>.
\<close>

theorem missing_run_not_defaulted:
  "run pingCommand = None
   \<and> handleCommand sampleClient ''ping'' (commandInteraction []) =
       ([], Inl (TypeError ''base is not a function''))"
  by (simp add: client_defs sample_defs pass_defs)

text \<open>
  Claim C9. A client constructed without \<open>storePageState\<close> fails every call of
  \<open>storePageState\<close>, and one constructed without \<open>getPageState\<close> fails every call of
  \<open>getPageState\<close>, with the error whose message names both functions; neither ever
  returns a value.
\<close>

theorem missing_page_store_throws:
  "(optionsStorePageState opts = None \<longrightarrow>
      storePageState (SlashasaurusClient opts) messageId pid state msgData =
        Inl (Error ''You must implement storePageState and getPageState in order to use pages''))
   \<and> (optionsGetPageState opts = None \<longrightarrow>
      getPageState (SlashasaurusClient opts) messageId =
        Inl (Error ''You must implement storePageState and getPageState in order to use pages''))"
  by (simp add: SlashasaurusClient_def defaultPageStore_def defaultPageGet_def
      missingPageStoreMessage_def)

theorem missing_page_store_throws_witness:
  "storePageState emptyClient ''1001'' ''settings'' ''{}'' ''{}'' =
     Inl (Error ''You must implement storePageState and getPageState in order to use pages'')
   \<and> getPageState emptyClient ''1001'' =
     Inl (Error ''You must implement storePageState and getPageState in order to use pages'')"
  using missing_page_store_throws[of
      "\<lparr> optionsStorePageState = None, optionsGetPageState = None,
         skipValidationAndTransformationForAutocomplete = None \<rparr>"
      "''1001''" "''settings''" "''{}''" "''{}''"]
  by (simp add: emptyClient_def)

text \<open>
  Claim C10, as amended. Take a command none of whose options is named \<open>__proto__\<close>.
  Whenever the pass returns a values object, every declared option has an entry in it. When
  the option names are distinct the entry is \<open>null\<close> for an absent option and, for a
  present one, the extracted value, or what the registered transformer made of it.
\<close>

theorem values_object_complete:
  assumes ret: "snd (validateAndTransformOptions cmd interaction skip) = Inr (Values vs)"
      and mem: "opt \<in> set (options (commandInfo cmd))"
      and plain: "''__proto__'' \<notin> optName ` set (options (commandInfo cmd))"
  shows "optName opt \<in> dom vs \<and>
         (distinct (map optName (options (commandInfo cmd))) \<longrightarrow>
            (\<exists>v. getDataForType interaction (optType opt) (optName opt) (requiredArg skip opt) = Inr v \<and>
               (v = JNull \<longrightarrow> vs (optName opt) = Some JNull) \<and>
               (v \<noteq> JNull \<longrightarrow>
                  (case transformersMap cmd (optName opt) of
                     None \<Rightarrow> vs (optName opt) = Some v
                   | Some g \<Rightarrow> \<exists>v'. g v = Inr v' \<and> vs (optName opt) = Some v'))))"
proof -
  from validate_returns[OF ret] obtain st where
    l: "optionsLoop cmd interaction skip (options (commandInfo cmd)) initialState = (st, None)"
    and r: "Values vs = (if length (errors st) > 0 then Errors (errors st) else Values (vals st))"
    by blast
  from r have e: "errors st = []" and vs: "vs = vals st" by (auto split: if_splits)
  from optionsLoop_errors[OF l] e
  have "concat (map (rejectionMessages cmd interaction skip) (options (commandInfo cmd))) = []"
    by (simp add: initialState_def)
  with mem have rej: "rejectionMessages cmd interaction skip opt = []" by auto
  from split_list[OF mem] obtain pre post where sp: "options (commandInfo cmd) = pre @ opt # post"
    by blast
  from optionsLoop_split[OF l[unfolded sp]] obtain sa where
    lpre: "optionsLoop cmd interaction skip pre initialState = (sa, None)"
    and "optionsLoop cmd interaction skip (opt # post) sa = (st, None)" by blast
  from optionsLoop_Cons_None[OF this(2)] obtain sb where
    p: "processOption cmd interaction skip opt sa = (sb, None)"
    and post: "optionsLoop cmd interaction skip post sb = (st, None)" by blast
  from plain sp have npre: "''__proto__'' \<notin> optName ` set pre" by auto
  from mem plain have nm: "optName opt \<noteq> ''__proto__''" by (metis imageI)
  have "proto initialState = objectPrototype" by (simp add: initialState_def)
  from optionsLoop_proto[OF lpre this npre] have pr: "proto sa = objectPrototype" .
  from processOption_accepted[OF p rej pr nm] obtain v where
    g: "getDataForType interaction (optType opt) (optName opt) (requiredArg skip opt) = Inr v"
    and n: "v = JNull \<longrightarrow> vals sb (optName opt) = Some JNull"
    and t: "v \<noteq> JNull \<longrightarrow>
              (case transformersMap cmd (optName opt) of
                 None \<Rightarrow> vals sb (optName opt) = Some v
               | Some g \<Rightarrow> \<exists>v'. g v = Inr v' \<and> vals sb (optName opt) = Some v')"
    by blast
  have "vals sb (optName opt) \<noteq> None"
    using n t by (cases "v = JNull"; cases "transformersMap cmd (optName opt)") auto
  from optionsLoop_dom[OF post this] have d: "optName opt \<in> dom vs" using vs by auto
  have "\<exists>v. getDataForType interaction (optType opt) (optName opt) (requiredArg skip opt) = Inr v \<and>
               (v = JNull \<longrightarrow> vs (optName opt) = Some JNull) \<and>
               (v \<noteq> JNull \<longrightarrow>
                  (case transformersMap cmd (optName opt) of
                     None \<Rightarrow> vs (optName opt) = Some v
                   | Some g \<Rightarrow> \<exists>v'. g v = Inr v' \<and> vs (optName opt) = Some v'))"
    if dis: "distinct (map optName (options (commandInfo cmd)))"
  proof -
    from dis sp have "optName opt \<notin> optName ` set post" by auto
    from optionsLoop_vals_other[OF post this] have eq: "vals sb (optName opt) = vs (optName opt)"
      using vs by simp
    from g n[unfolded eq] t[unfolded eq] show ?thesis by blast
  qed
  with d show ?thesis by blast
qed

text \<open>A valid order: the note is prefixed and the count doubled.\<close>

theorem values_object_complete_witness:
  "snd (validateAndTransformOptions orderCommand
          (commandInteraction [(''item'', JStr ''tea''), (''note'', JStr ''hi''), (''count'', JNum 2)])
          False)
     = Inr (Values [''item'' \<mapsto> JStr ''tea'', ''note'' \<mapsto> JStr ''note: hi'',
                    ''count'' \<mapsto> JNum 4])
   \<and> countOption \<in> set (options (commandInfo orderCommand))
   \<and> ''__proto__'' \<notin> optName ` set (options (commandInfo orderCommand))
   \<and> optName countOption
         \<in> dom [''item'' \<mapsto> JStr ''tea'', ''note'' \<mapsto> JStr ''note: hi'', ''count'' \<mapsto> JNum 4]"
proof -
  have r: "snd (validateAndTransformOptions orderCommand
          (commandInteraction [(''item'', JStr ''tea''), (''note'', JStr ''hi''), (''count'', JNum 2)])
          False)
     = Inr (Values [''item'' \<mapsto> JStr ''tea'', ''note'' \<mapsto> JStr ''note: hi'',
                    ''count'' \<mapsto> JNum 4])"
    by (simp add: sample_defs pass_defs)
  have m: "countOption \<in> set (options (commandInfo orderCommand))"
    by (simp add: sample_defs Let_def)
  have n: "''__proto__'' \<notin> optName ` set (options (commandInfo orderCommand))"
    by (simp add: sample_defs Let_def)
  from values_object_complete[OF r m n] r m n show ?thesis by blast
qed

text \<open>
  The claim as stated fails for an option named \<open>__proto__\<close>: a string supplied for it
  goes to the prototype setter, which ignores it, and the returned values object has no
  entry for the declared option.
\<close>

theorem declared_proto_option_missing:
  "protoOption \<in> set (options (commandInfo protoCommand))
   \<and> validateAndTransformOptions protoCommand
         (commandInteraction [(''__proto__'', JStr ''x'')]) False
       = ([], Inr (Values Map.empty))"
  by (simp add: sample_defs pass_defs)

end
